theory Spec2Isabelle
  imports Main "HOL-Library.Word"
begin

section \<open>Strings of the platform\<close>

text \<open>
  A string of the source language is a sequence of 16-bit code units. Literals of the
  source that are plain ASCII (or Latin-1) are written as HOL strings and lifted by
  \<open>js\<close>, one code unit per character.
\<close>

type_synonym char16 = "16 word"
type_synonym jsstring = "char16 list"

definition js :: "string \<Rightarrow> jsstring" where
  "js s = map of_char s"

text \<open>
  \<open>String.prototype.replace\<close> with a global regular expression whose pattern is a
  literal, non-empty text and whose replacement holds no \<open>$\<close>: the scan runs from the
  left, every match is replaced and the scan resumes behind the match.
\<close>

fun replaceAll :: "jsstring \<Rightarrow> jsstring \<Rightarrow> jsstring \<Rightarrow> jsstring" where
  "replaceAll pat rep [] = []"
| "replaceAll pat rep (c # cs) =
     (if pat \<noteq> [] \<and> take (length pat) (c # cs) = pat
      then rep @ replaceAll pat rep (drop (length pat) (c # cs))
      else c # replaceAll pat rep cs)"

text \<open>
  \<open>String.prototype.trim\<close> removes the code units of \<open>WhiteSpace\<close> and
  \<open>LineTerminator\<close> from both ends.
\<close>

definition isWhiteSpace :: "char16 \<Rightarrow> bool" where
  "isWhiteSpace c \<longleftrightarrow>
     c \<in> {0x09, 0x0A, 0x0B, 0x0C, 0x0D, 0x20, 0xA0, 0x1680, 0x2028, 0x2029, 0x202F,
          0x205F, 0x3000, 0xFEFF} \<or> (0x2000 \<le> c \<and> c \<le> 0x200A)"

definition trim :: "jsstring \<Rightarrow> jsstring" where
  "trim s = rev (dropWhile isWhiteSpace (rev (dropWhile isWhiteSpace s)))"

section \<open>The regular expression of the iframe extractor\<close>

text \<open>
  The pattern \<^verbatim>\<open>/<iframe[^>]*srcdoc=["']([^"']*)["'][^>]*>/i\<close> is a sequence of single
  code units, greedy stars over a class of code units, and one capture group. The
  matcher below is the backtracking matcher of the language for such sequences: a star
  first takes as many code units as it can and gives them back one at a time when the
  rest of the pattern fails. The result of a match is the text of the capture group.
\<close>

datatype rx = One "char16 \<Rightarrow> bool" | Star "char16 \<Rightarrow> bool" | GroupOpen | GroupClose

fun rx_match :: "rx list \<Rightarrow> jsstring \<Rightarrow> bool \<Rightarrow> jsstring \<Rightarrow> jsstring option" where
  "rx_match [] s rec acc = Some (rev acc)"
| "rx_match (One p # r) [] rec acc = None"
| "rx_match (One p # r) (c # cs) rec acc =
     (if p c then rx_match r cs rec (if rec then c # acc else acc) else None)"
| "rx_match (Star p # r) [] rec acc = rx_match r [] rec acc"
| "rx_match (Star p # r) (c # cs) rec acc =
     (if p c
      then (case rx_match (Star p # r) cs rec (if rec then c # acc else acc) of
              Some m \<Rightarrow> Some m
            | None \<Rightarrow> rx_match r (c # cs) rec acc)
      else rx_match r (c # cs) rec acc)"
| "rx_match (GroupOpen # r) s rec acc = rx_match r s True []"
| "rx_match (GroupClose # r) s rec acc = rx_match r s False acc"

text \<open>
  \<open>String.prototype.match\<close> with a pattern that is not global: the first start
  position, from the left, at which the pattern matches.
\<close>

fun rx_search :: "rx list \<Rightarrow> jsstring \<Rightarrow> jsstring option" where
  "rx_search r [] = rx_match r [] False []"
| "rx_search r (c # cs) =
     (case rx_match r (c # cs) False [] of
        Some m \<Rightarrow> Some m
      | None \<Rightarrow> rx_search r cs)"

text \<open>
  The flag \<open>i\<close> compares canonical forms. Every code unit of the pattern is ASCII, and
  the canonical form of a code unit outside ASCII is never an ASCII one, so only the
  ASCII letters have to be folded.
\<close>

definition canonicalize :: "char16 \<Rightarrow> char16" where
  "canonicalize c = (if 0x61 \<le> c \<and> c \<le> 0x7A then c - 0x20 else c)"

definition lit :: "char \<Rightarrow> rx" where
  "lit x = One (\<lambda>c. canonicalize c = canonicalize (of_char x))"

definition noneOf :: "string \<Rightarrow> char16 \<Rightarrow> bool" where
  "noneOf xs c \<longleftrightarrow> canonicalize c \<notin> canonicalize ` of_char ` set xs"

definition oneOf :: "string \<Rightarrow> char16 \<Rightarrow> bool" where
  "oneOf xs c \<longleftrightarrow> canonicalize c \<in> canonicalize ` of_char ` set xs"

definition iframePattern :: "rx list" where
  "iframePattern =
     map lit ''<iframe'' @ [Star (noneOf ''>'')] @ map lit ''srcdoc='' @
     [One (oneOf [CHR 0x22, CHR 0x27]), GroupOpen, Star (noneOf [CHR 0x22, CHR 0x27]), GroupClose,
      One (oneOf [CHR 0x22, CHR 0x27]), Star (noneOf ''>''), lit CHR ''>'']"

section \<open>extractIframeContent\<close>

definition backslash_n :: jsstring where
  "backslash_n = [0x5C, 0x6E]"

definition newline :: jsstring where
  "newline = [0x0A]"

definition extractIframeContent :: "jsstring \<Rightarrow> jsstring" where
  "extractIframeContent text =
     (case rx_search iframePattern text of
        Some (c # cs) \<Rightarrow>
          (let content = c # cs;
               content = replaceAll (js ''&quot;'') [0x22] content;
               content = replaceAll (js ''&lt;'') (js ''<'') content;
               content = replaceAll (js ''&gt;'') (js ''>'') content;
               content = replaceAll (js ''&amp;'') (js ''&'') content;
               content = replaceAll backslash_n newline content
           in content)
      | _ \<Rightarrow> replaceAll backslash_n newline text)"

section \<open>JSON values\<close>

text \<open>
  The values that flow through the application are the results of \<open>JSON.parse\<close>:
  \<open>null\<close>, booleans, numbers, strings, arrays and objects. An object is the list of
  its properties in property order. \<open>JBigInt\<close> stands for the values the serializer
  throws on, so that the \<open>catch\<close> of \<open>formatJson\<close> is a branch of the model.
  (\<open>undefined\<close>, functions and symbols, for which the serializer returns no text, do
  not occur in the application and are not values of the model.)
\<close>

subsection \<open>Numbers\<close>

text \<open>
  A number is an IEEE 754 binary64 value, kept as its 64 bits: the sign, eleven bits of
  exponent and 52 bits of fraction. A finite number has the magnitude \<open>m \<times> 2\<^sup>e\<close>
  for the pair \<open>(m, e)\<close> of \<open>magnitude\<close>.
\<close>

type_synonym jsnumber = "64 word"

definition fractionBits :: "jsnumber \<Rightarrow> int" where
  "fractionBits d = uint d mod 2 ^ 52"

definition exponentBits :: "jsnumber \<Rightarrow> int" where
  "exponentBits d = uint d div 2 ^ 52 mod 2 ^ 11"

definition signBit :: "jsnumber \<Rightarrow> bool" where
  "signBit d \<longleftrightarrow> uint d div 2 ^ 63 = 1"

definition isNaN :: "jsnumber \<Rightarrow> bool" where
  "isNaN d \<longleftrightarrow> exponentBits d = 2047 \<and> fractionBits d \<noteq> 0"

definition isInfinite :: "jsnumber \<Rightarrow> bool" where
  "isInfinite d \<longleftrightarrow> exponentBits d = 2047 \<and> fractionBits d = 0"

definition isZero :: "jsnumber \<Rightarrow> bool" where
  "isZero d \<longleftrightarrow> exponentBits d = 0 \<and> fractionBits d = 0"

definition magnitude :: "jsnumber \<Rightarrow> int \<times> int" where
  "magnitude d =
     (if exponentBits d = 0 then (fractionBits d, - 1074)
      else (2 ^ 52 + fractionBits d, exponentBits d - 1075))"

text \<open>
  The bits of a magnitude with its sign; \<open>None\<close> is the infinite magnitude. A finite
  magnitude \<open>(m, e)\<close> is either normal, with \<open>2\<^sup>5\<^sup>2 \<le> m < 2\<^sup>5\<^sup>3\<close>, or has
  \<open>m < 2\<^sup>5\<^sup>2\<close> and \<open>e = -1074\<close>.
\<close>

definition encode :: "bool \<Rightarrow> (int \<times> int) option \<Rightarrow> jsnumber" where
  "encode neg x =
     of_int
       ((if neg then 2 ^ 63 else 0) +
        (case x of
           None \<Rightarrow> 2047 * 2 ^ 52
         | Some (m, e) \<Rightarrow> if m < 2 ^ 52 then m else (e + 1075) * 2 ^ 52 + (m - 2 ^ 52)))"

function bitLength :: "int \<Rightarrow> int" where
  "bitLength n = (if n \<le> 0 then 0 else 1 + bitLength (n div 2))"
  by pat_completeness auto
termination
  by (relation "measure nat") auto

declare bitLength.simps [simp del]

function decimalDigits :: "int \<Rightarrow> nat list" where
  "decimalDigits n = (if n < 10 then [nat n] else decimalDigits (n div 10) @ [nat (n mod 10)])"
  by pat_completeness auto
termination
  by (relation "measure nat") auto

declare decimalDigits.simps [simp del]

text \<open>
  The number value of a positive rational \<open>p / q\<close>: the nearest binary64 magnitude,
  a tie going to the even one, and the infinite magnitude behind the largest finite one.
  \<open>floorLog2 p q\<close> is the integer part of the binary logarithm of \<open>p / q\<close>.
\<close>

definition floorLog2 :: "int \<Rightarrow> int \<Rightarrow> int" where
  "floorLog2 p q =
     (let f = bitLength p - bitLength q
      in if q * 2 ^ nat f \<le> p * 2 ^ nat (- f) then f else f - 1)"

definition roundHalfEven :: "int \<Rightarrow> int \<Rightarrow> int" where
  "roundHalfEven n d =
     (let m = n div d; r = n mod d
      in if d < 2 * r \<or> (2 * r = d \<and> odd m) then m + 1 else m)"

definition toBinary64 :: "int \<Rightarrow> int \<Rightarrow> (int \<times> int) option" where
  "toBinary64 p q =
     (let e = max (floorLog2 p q - 52) (- 1074);
          m = roundHalfEven (p * 2 ^ nat (- e)) (q * 2 ^ nat e);
          e' = (if m = 2 ^ 53 then e + 1 else e);
          m' = (if m = 2 ^ 53 then 2 ^ 52 else m)
      in if 971 < e' then None else Some (m', e'))"

text \<open>
  The number denoted by a literal with the sign \<open>neg\<close>, the integer digits \<open>ds\<close>, the
  fraction digits \<open>fs\<close> and the exponent \<open>e\<close>: its exact decimal value, rounded.
\<close>

definition intOfDigits :: "nat list \<Rightarrow> int" where
  "intOfDigits ds = foldl (\<lambda>a d. 10 * a + int d) 0 ds"

definition mkNumber :: "bool \<Rightarrow> nat list \<Rightarrow> nat list \<Rightarrow> int \<Rightarrow> jsnumber" where
  "mkNumber neg ds fs e =
     (let digs = intOfDigits (ds @ fs); x = e - int (length fs)
      in if digs = 0 then encode neg (Some (0, - 1074))
         else encode neg (toBinary64 (digs * 10 ^ nat x) (10 ^ nat (- x))))"

text \<open>
  \<open>Number::toString\<close> takes the digits \<open>s\<close>, their count \<open>k\<close> and the position
  \<open>n\<close> of the decimal point such that \<open>k\<close> is as small as possible and
  \<open>s \<times> 10\<^sup>n\<^sup>-\<^sup>k\<close> has the number as its number value; among several such \<open>s\<close>
  the one nearest to the number, and the even one of two equally near. \<open>decimalPoint\<close>
  is the \<open>n\<close> with \<open>10\<^sup>n\<^sup>-\<^sup>1 \<le> p / q < 10\<^sup>n\<close>; \<open>nearest x k\<close> looks at the two
  decimals of \<open>k\<close> digits around the number. Seventeen digits always identify a
  binary64 value, so the search ends there with the nearest decimal.
\<close>

definition decimalPoint :: "int \<Rightarrow> int \<Rightarrow> int" where
  "decimalPoint p q =
     (let d = int (length (decimalDigits p)) - int (length (decimalDigits q))
      in if q * 10 ^ nat d \<le> p * 10 ^ nat (- d) then d + 1 else d)"

definition roundTrips :: "int \<times> int \<Rightarrow> int \<Rightarrow> int \<times> int \<Rightarrow> bool" where
  "roundTrips x k c =
     (case c of (s, n) \<Rightarrow> toBinary64 (s * 10 ^ nat (n - k)) (10 ^ nat (k - n)) = Some x)"

definition nearest :: "int \<times> int \<Rightarrow> int \<Rightarrow> bool \<Rightarrow> (int \<times> int) option" where
  "nearest x k checked =
     (case x of (m, e) \<Rightarrow>
        (let p = m * 2 ^ nat e; q = 2 ^ nat (- e);
             n = decimalPoint p q;
             P = p * 10 ^ nat (k - n); Q = q * 10 ^ nat (n - k);
             lo = P div Q;
             below = (lo, n);
             above = (if lo + 1 = 10 ^ nat k then (10 ^ nat (k - 1), n + 1) else (lo + 1, n));
             useBelow = (\<not> checked \<or> roundTrips x k below);
             useAbove = (P mod Q \<noteq> 0 \<and> (\<not> checked \<or> roundTrips x k above));
             preferBelow = (2 * P < (2 * lo + 1) * Q \<or> (2 * P = (2 * lo + 1) * Q \<and> even lo))
         in if useBelow \<and> (\<not> useAbove \<or> preferBelow) then Some below
            else if useAbove then Some above
            else None))"

fun shortestFrom :: "int \<times> int \<Rightarrow> int list \<Rightarrow> int \<times> int \<times> int" where
  "shortestFrom x [] =
     (case nearest x 17 False of Some (s, n) \<Rightarrow> (s, 17, n) | None \<Rightarrow> (0, 17, 0))"
| "shortestFrom x (k # ks) =
     (case nearest x k True of Some (s, n) \<Rightarrow> (s, k, n) | None \<Rightarrow> shortestFrom x ks)"

definition shortest :: "int \<times> int \<Rightarrow> int \<times> int \<times> int" where
  "shortest x = shortestFrom x [1, 2, 3, 4, 5, 6, 7, 8, 9, 10, 11, 12, 13, 14, 15, 16]"

subsection \<open>Values\<close>

datatype jsvalue =
    JNull
  | JBool bool
  | JNum jsnumber
  | JStr jsstring
  | JArr "jsvalue list"
  | JObj "(jsstring \<times> jsvalue) list"
  | JBigInt int

text \<open>\<open>ToBoolean\<close>, as used by \<open>if (parsed)\<close> and \<open>!parsed\<close>.\<close>

fun truthy :: "jsvalue \<Rightarrow> bool" where
  "truthy JNull = False"
| "truthy (JBool b) = b"
| "truthy (JNum x) = (\<not> isZero x \<and> \<not> isNaN x)"
| "truthy (JStr s) = (s \<noteq> [])"
| "truthy (JArr vs) = True"
| "truthy (JObj ps) = True"
| "truthy (JBigInt i) = (i \<noteq> 0)"

subsection \<open>Decimal digits\<close>

definition isDigit :: "char16 \<Rightarrow> bool" where
  "isDigit c \<longleftrightarrow> 0x30 \<le> c \<and> c \<le> 0x39"

definition digitVal :: "char16 \<Rightarrow> nat" where
  "digitVal c = unat c - 0x30"

definition digitChar :: "nat \<Rightarrow> char16" where
  "digitChar d = of_nat (0x30 + d)"

fun natDigits :: "nat \<Rightarrow> nat list" where
  "natDigits n = (if n < 10 then [n] else natDigits (n div 10) @ [n mod 10])"

declare natDigits.simps [simp del]

text \<open>The decimal text of a natural number, as a template literal prints a status code.\<close>

definition natToString :: "nat \<Rightarrow> jsstring" where
  "natToString n = map digitChar (natDigits n)"

text \<open>\<open>Number::toString\<close>.\<close>

definition numberToString :: "jsnumber \<Rightarrow> jsstring" where
  "numberToString d =
     (if isNaN d then js ''NaN''
      else if isZero d then js ''0''
      else
        (if signBit d then js ''-'' else []) @
        (if isInfinite d then js ''Infinity''
         else
           (case shortest (magnitude d) of (sig, k, n) \<Rightarrow>
              (let s = map digitChar (decimalDigits sig) in
               if k \<le> n \<and> n \<le> 21 then s @ replicate (nat (n - k)) 0x30
               else if 0 < n \<and> n \<le> 21 then take (nat n) s @ js ''.'' @ drop (nat n) s
               else if - 6 < n \<and> n \<le> 0 then js ''0.'' @ replicate (nat (- n)) 0x30 @ s
               else
                 (let e = n - 1;
                      es = (if e < 0 then js ''-'' else js ''+'') @
                           map digitChar (decimalDigits \<bar>e\<bar>)
                  in if k = 1 then s @ js ''e'' @ es
                     else take 1 s @ js ''.'' @ drop 1 s @ js ''e'' @ es)))))"

subsection \<open>JSON.parse: the tokens\<close>

datatype token =
    TLBrace | TRBrace | TLBracket | TRBracket | TColon | TComma
  | TString jsstring | TNumber jsnumber | TTrue | TFalse | TNull

definition isJsonWhiteSpace :: "char16 \<Rightarrow> bool" where
  "isJsonWhiteSpace c \<longleftrightarrow> c = 0x09 \<or> c = 0x0A \<or> c = 0x0D \<or> c = 0x20"

definition hexVal :: "char16 \<Rightarrow> nat option" where
  "hexVal c =
     (if 0x30 \<le> c \<and> c \<le> 0x39 then Some (unat c - 0x30)
      else if 0x41 \<le> c \<and> c \<le> 0x46 then Some (unat c - 0x41 + 10)
      else if 0x61 \<le> c \<and> c \<le> 0x66 then Some (unat c - 0x61 + 10)
      else None)"

text \<open>The code unit written by the four hexadecimal digits of a \<^verbatim>\<open>\u\<close> escape.\<close>

definition hex4 :: "jsstring \<Rightarrow> char16 option" where
  "hex4 hs =
     (case map hexVal hs of
        [Some x, Some y, Some z, Some w] \<Rightarrow> Some (of_nat (4096 * x + 256 * y + 16 * z + w))
      | _ \<Rightarrow> None)"

text \<open>The single-character escapes of a JSON string: \<^verbatim>\<open>\" \\ \/ \b \f \n \r \t\<close>.\<close>

definition unescape :: "char16 \<Rightarrow> char16 option" where
  "unescape e =
     (if e = 0x22 then Some 0x22
      else if e = 0x5C then Some 0x5C
      else if e = 0x2F then Some 0x2F
      else if e = 0x62 then Some 0x08
      else if e = 0x66 then Some 0x0C
      else if e = 0x6E then Some 0x0A
      else if e = 0x72 then Some 0x0D
      else if e = 0x74 then Some 0x09
      else None)"

text \<open>
  The characters of a string literal behind its opening quote: the decoded text and
  the input behind the closing quote. Control characters below U+0020 are refused.
\<close>

fun lex_string :: "jsstring \<Rightarrow> jsstring \<Rightarrow> (jsstring \<times> jsstring) option" where
  "lex_string [] acc = None"
| "lex_string (c # cs) acc =
     (if c = 0x22 then Some (rev acc, cs)
      else if c = 0x5C then
        (case cs of
           [] \<Rightarrow> None
         | e # es \<Rightarrow>
             if e = 0x75 then
               (case hex4 (take 4 es) of
                  None \<Rightarrow> None
                | Some u \<Rightarrow> lex_string (drop 4 es) (u # acc))
             else
               (case unescape e of
                  None \<Rightarrow> None
                | Some u \<Rightarrow> lex_string es (u # acc)))
      else if c < 0x20 then None
      else lex_string cs (c # acc))"

definition lex_digits :: "jsstring \<Rightarrow> nat list \<times> jsstring" where
  "lex_digits s = (map digitVal (takeWhile isDigit s), dropWhile isDigit s)"

text \<open>The integer part is \<open>0\<close> or a digit from 1 to 9 followed by digits.\<close>

definition lex_int :: "jsstring \<Rightarrow> (nat list \<times> jsstring) option" where
  "lex_int s =
     (case s of
        [] \<Rightarrow> None
      | c # cs \<Rightarrow>
          if c = 0x30 then Some ([0], cs)
          else if isDigit c then Some (lex_digits s)
          else None)"

definition lex_frac :: "jsstring \<Rightarrow> (nat list \<times> jsstring) option" where
  "lex_frac s =
     (case s of
        [] \<Rightarrow> Some ([], s)
      | c # cs \<Rightarrow>
          if c = 0x2E then
            (case lex_digits cs of
               ([], r) \<Rightarrow> None
             | (f # fs, r) \<Rightarrow> Some (f # fs, r))
          else Some ([], s))"

definition lex_sign :: "jsstring \<Rightarrow> bool \<times> jsstring" where
  "lex_sign s =
     (case s of
        [] \<Rightarrow> (False, s)
      | c # cs \<Rightarrow>
          if c = 0x2D then (True, cs) else if c = 0x2B then (False, cs) else (False, s))"

definition lex_exp :: "jsstring \<Rightarrow> (int \<times> jsstring) option" where
  "lex_exp s =
     (case s of
        [] \<Rightarrow> Some (0, s)
      | c # cs \<Rightarrow>
          if c = 0x65 \<or> c = 0x45 then
            (case lex_sign cs of
               (neg, t) \<Rightarrow>
                 (case lex_digits t of
                    ([], r) \<Rightarrow> None
                  | (e # es, r) \<Rightarrow>
                      Some (if neg then - intOfDigits (e # es)
                            else intOfDigits (e # es), r)))
          else Some (0, s))"

definition lex_number :: "jsstring \<Rightarrow> (jsnumber \<times> jsstring) option" where
  "lex_number s =
     (case (case s of [] \<Rightarrow> (False, s) | c # cs \<Rightarrow> if c = 0x2D then (True, cs) else (False, s)) of
        (neg, s1) \<Rightarrow>
          (case lex_int s1 of
             None \<Rightarrow> None
           | Some (ds, s2) \<Rightarrow>
               (case lex_frac s2 of
                  None \<Rightarrow> None
                | Some (fs, s3) \<Rightarrow>
                    (case lex_exp s3 of
                       None \<Rightarrow> None
                     | Some (e, s4) \<Rightarrow> Some (mkNumber neg ds fs e, s4)))))"

text \<open>
  The token list of a JSON text, or \<open>None\<close> for a text that is not a sequence of
  tokens. White space between tokens is a tab, a line feed, a carriage return or a
  space.
\<close>

function lex :: "jsstring \<Rightarrow> token list option" where
  "lex [] = Some []"
| "lex (c # cs) =
     (if isJsonWhiteSpace c then lex cs
      else if c = 0x7B then map_option ((#) TLBrace) (lex cs)
      else if c = 0x7D then map_option ((#) TRBrace) (lex cs)
      else if c = 0x5B then map_option ((#) TLBracket) (lex cs)
      else if c = 0x5D then map_option ((#) TRBracket) (lex cs)
      else if c = 0x3A then map_option ((#) TColon) (lex cs)
      else if c = 0x2C then map_option ((#) TComma) (lex cs)
      else if c = 0x22 then
        (case lex_string cs [] of
           None \<Rightarrow> None
         | Some (str, rest) \<Rightarrow> map_option ((#) (TString str)) (lex rest))
      else if c = 0x2D \<or> isDigit c then
        (case lex_number (c # cs) of
           None \<Rightarrow> None
         | Some (n, rest) \<Rightarrow> map_option ((#) (TNumber n)) (lex rest))
      else if take 4 (c # cs) = js ''true'' then map_option ((#) TTrue) (lex (drop 4 (c # cs)))
      else if take 5 (c # cs) = js ''false'' then map_option ((#) TFalse) (lex (drop 5 (c # cs)))
      else if take 4 (c # cs) = js ''null'' then map_option ((#) TNull) (lex (drop 4 (c # cs)))
      else None)"
  by pat_completeness auto

termination
proof -
  have str: "length r < length s" if "lex_string s acc = Some (t, r)" for s acc t r
    using that
  proof (induction s acc rule: lex_string.induct)
    case (1 acc)
    then show ?case by simp
  next
    case (2 c cs acc)
    show ?case
    proof (cases "c = 0x22")
      case True
      with 2(4) show ?thesis by simp
    next
      case nq: False
      show ?thesis
      proof (cases "c = 0x5C")
        case bs: True
        show ?thesis
        proof (cases cs)
          case Nil
          with nq bs 2(4) show ?thesis by simp
        next
          case (Cons e es)
          show ?thesis
          proof (cases "e = 0x75")
            case True
            from nq bs Cons True 2(4) obtain u where
              h: "hex4 (take 4 es) = Some u"
              and l: "lex_string (drop 4 es) (u # acc) = Some (t, r)"
              by (simp split: option.splits)
            from 2(1)[OF nq bs Cons True h l] Cons show ?thesis
              by simp
          next
            case False
            from nq bs Cons False 2(4) obtain u where
              h: "unescape e = Some u" and l: "lex_string es (u # acc) = Some (t, r)"
              by (simp split: option.splits)
            from 2(2)[OF nq bs Cons False h l] Cons show ?thesis by simp
          qed
        qed
      next
        case False
        with nq 2(4) have "lex_string cs (c # acc) = Some (t, r)" and "\<not> c < 0x20"
          by (simp_all split: if_splits)
        with 2(3)[OF nq False] show ?thesis by simp
      qed
    qed
  qed
  have int: "length r < length s" if "lex_int s = Some (ds, r)" for s ds r
    using that
    by (auto simp: lex_int_def lex_digits_def isDigit_def split: list.splits if_splits
        intro: le_imp_less_Suc length_dropWhile_le)
  have frac: "length r \<le> length s" if "lex_frac s = Some (fs, r)" for s fs r
    using that
    by (auto simp: lex_frac_def lex_digits_def split: list.splits if_splits prod.splits
        intro: le_SucI length_dropWhile_le)
  have sign: "length r \<le> length s" if "lex_sign s = (b, r)" for s b r
    using that by (auto simp: lex_sign_def split: list.splits if_splits)
  have digs: "length r \<le> length s" if "lex_digits s = (ds, r)" for s ds r
    using that by (auto simp: lex_digits_def length_dropWhile_le)
  have exp: "length r \<le> length s" if "lex_exp s = Some (e, r)" for s e r
    using that
    by (auto simp: lex_exp_def split: list.splits if_splits prod.splits
        dest!: sign digs)
  have num: "length r < length s" if "lex_number s = Some (n, r)" for s n r
    using that
    by (auto simp: lex_number_def split: list.splits if_splits prod.splits option.splits
        dest!: int frac exp)
  show ?thesis
    by (relation "measure length") (auto dest: str num)
qed

subsection \<open>JSON.parse: the grammar\<close>

text \<open>
  A property key that is an array index (the canonical decimal text of an integer
  below \<open>2\<^sup>3\<^sup>2 - 1\<close>) is kept before every other key, in ascending order; the other
  keys follow in the order of their creation. Defining a key again replaces its value
  where it stands.
\<close>

definition isArrayIndex :: "jsstring \<Rightarrow> bool" where
  "isArrayIndex k \<longleftrightarrow>
     k \<noteq> [] \<and> list_all isDigit k \<and> (k = [0x30] \<or> take 1 k \<noteq> [0x30]) \<and>
     intOfDigits (map digitVal k) < 4294967295"

definition indexOfKey :: "jsstring \<Rightarrow> int" where
  "indexOfKey k = intOfDigits (map digitVal k)"

fun insertIndexed :: "jsstring \<Rightarrow> jsvalue \<Rightarrow> (jsstring \<times> jsvalue) list \<Rightarrow> (jsstring \<times> jsvalue) list" where
  "insertIndexed k v [] = [(k, v)]"
| "insertIndexed k v (p # ps) =
     (if isArrayIndex (fst p) \<and> indexOfKey (fst p) < indexOfKey k
      then p # insertIndexed k v ps
      else (k, v) # p # ps)"

definition defineProperty :: "jsstring \<Rightarrow> jsvalue \<Rightarrow> (jsstring \<times> jsvalue) list \<Rightarrow> (jsstring \<times> jsvalue) list" where
  "defineProperty k v ps =
     (if k \<in> fst ` set ps then map (\<lambda>p. if fst p = k then (k, v) else p) ps
      else if isArrayIndex k then insertIndexed k v ps
      else ps @ [(k, v)])"

text \<open>
  The grammar is read by a stack machine over the tokens. A frame is an open array with
  its elements so far (last first), an open object with its properties so far, or an
  open object whose next key has been read.
\<close>

datatype frame =
    ArrayFrame "jsvalue list"
  | ObjectFrame "(jsstring \<times> jsvalue) list"
  | PropertyFrame "(jsstring \<times> jsvalue) list" jsstring

datatype expect =
    ExpectValue
  | ExpectValueOrClose
  | ExpectKey
  | ExpectKeyOrClose
  | ExpectColon
  | ExpectCommaOrClose
  | Complete jsvalue

text \<open>A finished value goes to the innermost open container, or is the result.\<close>

fun deliver :: "jsvalue \<Rightarrow> frame list \<Rightarrow> (expect \<times> frame list) option" where
  "deliver v [] = Some (Complete v, [])"
| "deliver v (ArrayFrame es # st) = Some (ExpectCommaOrClose, ArrayFrame (v # es) # st)"
| "deliver v (PropertyFrame ps k # st) =
     Some (ExpectCommaOrClose, ObjectFrame (defineProperty k v ps) # st)"
| "deliver v (ObjectFrame ps # st) = None"

fun scalar :: "token \<Rightarrow> jsvalue option" where
  "scalar (TString s) = Some (JStr s)"
| "scalar (TNumber n) = Some (JNum n)"
| "scalar TTrue = Some (JBool True)"
| "scalar TFalse = Some (JBool False)"
| "scalar TNull = Some JNull"
| "scalar _ = None"

definition parse_value :: "bool \<Rightarrow> frame list \<Rightarrow> token \<Rightarrow> (expect \<times> frame list) option" where
  "parse_value closable st t =
     (case scalar t of
        Some v \<Rightarrow> deliver v st
      | None \<Rightarrow>
          if t = TLBracket then Some (ExpectValueOrClose, ArrayFrame [] # st)
          else if t = TLBrace then Some (ExpectKeyOrClose, ObjectFrame [] # st)
          else if t = TRBracket \<and> closable then
            (case st of ArrayFrame [] # st' \<Rightarrow> deliver (JArr []) st' | _ \<Rightarrow> None)
          else None)"

definition parse_key :: "bool \<Rightarrow> frame list \<Rightarrow> token \<Rightarrow> (expect \<times> frame list) option" where
  "parse_key closable st t =
     (case (t, st) of
        (TString k, ObjectFrame ps # st') \<Rightarrow> Some (ExpectColon, PropertyFrame ps k # st')
      | (TRBrace, ObjectFrame ps # st') \<Rightarrow> if closable then deliver (JObj ps) st' else None
      | _ \<Rightarrow> None)"

definition parse_next :: "frame list \<Rightarrow> token \<Rightarrow> (expect \<times> frame list) option" where
  "parse_next st t =
     (case (t, st) of
        (TComma, ArrayFrame es # st') \<Rightarrow> Some (ExpectValue, st)
      | (TComma, ObjectFrame ps # st') \<Rightarrow> Some (ExpectKey, st)
      | (TRBracket, ArrayFrame es # st') \<Rightarrow> deliver (JArr (rev es)) st'
      | (TRBrace, ObjectFrame ps # st') \<Rightarrow> deliver (JObj ps) st'
      | _ \<Rightarrow> None)"

fun parse_step :: "expect \<times> frame list \<Rightarrow> token \<Rightarrow> (expect \<times> frame list) option" where
  "parse_step (ExpectValue, st) t = parse_value False st t"
| "parse_step (ExpectValueOrClose, st) t = parse_value True st t"
| "parse_step (ExpectKey, st) t = parse_key False st t"
| "parse_step (ExpectKeyOrClose, st) t = parse_key True st t"
| "parse_step (ExpectColon, st) t = (if t = TColon then Some (ExpectValue, st) else None)"
| "parse_step (ExpectCommaOrClose, st) t = parse_next st t"
| "parse_step (Complete v, st) t = None"

fun parse_tokens :: "expect \<times> frame list \<Rightarrow> token list \<Rightarrow> jsvalue option" where
  "parse_tokens (Complete v, []) [] = Some v"
| "parse_tokens state [] = None"
| "parse_tokens state (t # ts) =
     (case parse_step state t of
        None \<Rightarrow> None
      | Some state' \<Rightarrow> parse_tokens state' ts)"

text \<open>\<open>JSON.parse\<close>: the value of a text, or \<open>None\<close> where it throws a SyntaxError.\<close>

definition JSON_parse :: "jsstring \<Rightarrow> jsvalue option" where
  "JSON_parse text =
     (case lex text of
        None \<Rightarrow> None
      | Some ts \<Rightarrow> parse_tokens (ExpectValue, []) ts)"

subsection \<open>JSON.stringify with an indentation of two spaces\<close>

definition hexDigit :: "nat \<Rightarrow> char16" where
  "hexDigit d = (if d < 10 then of_nat (0x30 + d) else of_nat (0x61 + (d - 10)))"

definition unicodeEscape :: "char16 \<Rightarrow> jsstring" where
  "unicodeEscape c =
     [0x5C, 0x75] @
     map hexDigit [unat c div 4096 mod 16, unat c div 256 mod 16, unat c div 16 mod 16, unat c mod 16]"

definition isHighSurrogate :: "char16 \<Rightarrow> bool" where
  "isHighSurrogate c \<longleftrightarrow> 0xD800 \<le> c \<and> c \<le> 0xDBFF"

definition isLowSurrogate :: "char16 \<Rightarrow> bool" where
  "isLowSurrogate c \<longleftrightarrow> 0xDC00 \<le> c \<and> c \<le> 0xDFFF"

definition quoteUnit :: "char16 \<Rightarrow> jsstring" where
  "quoteUnit c =
     (if c = 0x08 then [0x5C, 0x62]
      else if c = 0x09 then [0x5C, 0x74]
      else if c = 0x0A then [0x5C, 0x6E]
      else if c = 0x0C then [0x5C, 0x66]
      else if c = 0x0D then [0x5C, 0x72]
      else if c = 0x22 then [0x5C, 0x22]
      else if c = 0x5C then [0x5C, 0x5C]
      else if c < 0x20 then unicodeEscape c
      else [c])"

text \<open>
  \<open>QuoteJSONString\<close> walks the code points: a surrogate pair is copied, a surrogate
  that stands alone is written as an escape.
\<close>

fun quoteChars :: "jsstring \<Rightarrow> jsstring" where
  "quoteChars [] = []"
| "quoteChars [c] =
     (if isHighSurrogate c \<or> isLowSurrogate c then unicodeEscape c else quoteUnit c)"
| "quoteChars (c # d # cs) =
     (if isHighSurrogate c then
        (if isLowSurrogate d then c # d # quoteChars cs
         else unicodeEscape c @ quoteChars (d # cs))
      else if isLowSurrogate c then unicodeEscape c @ quoteChars (d # cs)
      else quoteUnit c @ quoteChars (d # cs))"

definition quoteJSONString :: "jsstring \<Rightarrow> jsstring" where
  "quoteJSONString s = [0x22] @ quoteChars s @ [0x22]"

fun joinWith :: "jsstring \<Rightarrow> jsstring list \<Rightarrow> jsstring" where
  "joinWith sep [] = []"
| "joinWith sep [x] = x"
| "joinWith sep (x # y # ys) = x @ sep @ joinWith sep (y # ys)"

definition gap :: jsstring where
  "gap = js ''  ''"

text \<open>
  \<open>SerializeJSONProperty\<close> at the indentation \<open>ind\<close>; \<open>None\<close> where it throws a
  TypeError.
\<close>

fun serialize :: "jsstring \<Rightarrow> jsvalue \<Rightarrow> jsstring option" where
  "serialize ind JNull = Some (js ''null'')"
| "serialize ind (JBool b) = Some (if b then js ''true'' else js ''false'')"
| "serialize ind (JNum x) =
     Some (if isNaN x \<or> isInfinite x then js ''null'' else numberToString x)"
| "serialize ind (JStr s) = Some (quoteJSONString s)"
| "serialize ind (JBigInt i) = None"
| "serialize ind (JArr vs) =
     (if vs = [] then Some (js ''[]'')
      else
        (case those (map (serialize (ind @ gap)) vs) of
           None \<Rightarrow> None
         | Some parts \<Rightarrow>
             Some (js ''['' @ newline @ ind @ gap @
                   joinWith (js '','' @ newline @ ind @ gap) parts @
                   newline @ ind @ js '']'')))"
| "serialize ind (JObj ps) =
     (if ps = [] then Some (js ''{}'')
      else
        (case those (map (\<lambda>p. map_option (\<lambda>t. quoteJSONString (fst p) @ js '': '' @ t)
                                  (serialize (ind @ gap) (snd p))) ps) of
           None \<Rightarrow> None
         | Some parts \<Rightarrow>
             Some (js ''{'' @ newline @ ind @ gap @
                   joinWith (js '','' @ newline @ ind @ gap) parts @
                   newline @ ind @ js ''}'')))"

text \<open>\<open>JSON.stringify(value, null, 2)\<close>.\<close>

definition JSON_stringify :: "jsvalue \<Rightarrow> jsstring option" where
  "JSON_stringify v = serialize [] v"

section \<open>formatJson and parseJsonSafely\<close>

definition formatJson :: "jsvalue \<Rightarrow> jsstring" where
  "formatJson v =
     (case JSON_stringify v of
        Some s \<Rightarrow> s
      | None \<Rightarrow> (case v of JStr s \<Rightarrow> s | _ \<Rightarrow> []))"

definition parseJsonSafely :: "jsstring \<Rightarrow> jsvalue" where
  "parseJsonSafely text =
     (case JSON_parse text of
        Some v \<Rightarrow> v
      | None \<Rightarrow> JNull)"

section \<open>Files, requests and responses\<close>

text \<open>
  A value that is thrown: an instance of \<open>Error\<close> with its message (also what a
  rejected \<open>fetch\<close> or a rejected read of a file gives), or the object literal that
  \<open>sendWebhookRequest\<close> throws.
\<close>

record WebhookError =
  message :: jsstring
  details :: "jsstring option"

datatype thrown = ErrorInstance jsstring | WebhookThrown WebhookError

text \<open>\<open>error as WebhookError\<close>: the thrown value, read through the fields of a WebhookError.\<close>

fun asWebhookError :: "thrown \<Rightarrow> WebhookError" where
  "asWebhookError (ErrorInstance m) = \<lparr>message = m, details = None\<rparr>"
| "asWebhookError (WebhookThrown e) = e"

text \<open>A file of the user; \<open>fileText\<close> is what \<open>file.text()\<close> settles with.\<close>

record File =
  fileName :: jsstring
  fileType :: jsstring
  fileText :: "thrown + jsstring"

datatype formValue =
    FormText jsstring
  | FormFile File
  | FormBlob jsstring jsstring jsstring

type_synonym FormData = "(jsstring \<times> formValue) list"

text \<open>
  The response of the server: \<open>bodyText\<close> is what \<open>response.text()\<close> resolves to, and
  \<open>response.ok\<close> holds for a status from 200 to 299.
\<close>

record Response =
  status :: nat
  statusText :: jsstring
  bodyText :: jsstring

definition ok :: "Response \<Rightarrow> bool" where
  "ok response \<longleftrightarrow> 200 \<le> status response \<and> status response \<le> 299"

section \<open>The state of the component and its updates\<close>

text \<open>
  The state hooks that the three actions and the import read or write, and the three
  URLs of the environment. (The selection of a university, a course and a preset rubric
  is kept in hooks of its own, which none of these handlers touches.)
\<close>

datatype RubricSource = Generada | Importada | Preestablecida

record Env =
  rubricWebhookUrl :: jsstring
  gradingWebhookUrl :: jsstring
  spreadsheetWebhookUrl :: jsstring

record AppState =
  rubricPdf :: "File option"
  rubricJson :: jsstring
  rubricSource :: "RubricSource option"
  submissionFile :: "File option"
  isGeneratingRubric :: bool
  isGrading :: bool
  gradingResponse :: jsvalue
  rubricError :: "WebhookError option"
  gradingError :: "WebhookError option"
  spreadsheetUrl :: jsstring
  spreadsheetSheetName :: jsstring
  spreadsheetStudentName :: jsstring
  spreadsheetGrade :: jsstring
  spreadsheetSummaryByCriteria :: jsstring
  spreadsheetStrengths :: jsstring
  spreadsheetRecommendations :: jsstring
  isUploadingSpreadsheet :: bool
  spreadsheetResponse :: jsvalue
  spreadsheetError :: "WebhookError option"

text \<open>The state of the first render: the initial values of the state hooks.\<close>

definition initialState :: AppState where
  "initialState =
     \<lparr>rubricPdf = None, rubricJson = [], rubricSource = None, submissionFile = None,
      isGeneratingRubric = False, isGrading = False, gradingResponse = JNull,
      rubricError = None, gradingError = None,
      spreadsheetUrl = [], spreadsheetSheetName = [], spreadsheetStudentName = [],
      spreadsheetGrade = [], spreadsheetSummaryByCriteria = [], spreadsheetStrengths = [],
      spreadsheetRecommendations = [], isUploadingSpreadsheet = False,
      spreadsheetResponse = JNull, spreadsheetError = None\<rparr>"

text \<open>
  What a handler does, in the order of the source: the calls of the state setters and
  the request it sends. A handler reads the state of the render it was created in and
  never reads back what it has set, so its run is this list.
\<close>

datatype effect =
    SetRubricJson jsstring
  | SetRubricSource "RubricSource option"
  | SetRubricError "WebhookError option"
  | SetIsGeneratingRubric bool
  | SetIsGrading bool
  | SetGradingResponse jsvalue
  | SetGradingError "WebhookError option"
  | SetIsUploadingSpreadsheet bool
  | SetSpreadsheetResponse jsvalue
  | SetSpreadsheetError "WebhookError option"
  | Fetch jsstring FormData

fun applyEffect :: "effect \<Rightarrow> AppState \<Rightarrow> AppState" where
  "applyEffect (SetRubricJson v) s = s\<lparr>rubricJson := v\<rparr>"
| "applyEffect (SetRubricSource v) s = s\<lparr>rubricSource := v\<rparr>"
| "applyEffect (SetRubricError v) s = s\<lparr>rubricError := v\<rparr>"
| "applyEffect (SetIsGeneratingRubric v) s = s\<lparr>isGeneratingRubric := v\<rparr>"
| "applyEffect (SetIsGrading v) s = s\<lparr>isGrading := v\<rparr>"
| "applyEffect (SetGradingResponse v) s = s\<lparr>gradingResponse := v\<rparr>"
| "applyEffect (SetGradingError v) s = s\<lparr>gradingError := v\<rparr>"
| "applyEffect (SetIsUploadingSpreadsheet v) s = s\<lparr>isUploadingSpreadsheet := v\<rparr>"
| "applyEffect (SetSpreadsheetResponse v) s = s\<lparr>spreadsheetResponse := v\<rparr>"
| "applyEffect (SetSpreadsheetError v) s = s\<lparr>spreadsheetError := v\<rparr>"
| "applyEffect (Fetch url body) s = s"

text \<open>The state after a list of effects, and the states passed on the way.\<close>

fun run :: "effect list \<Rightarrow> AppState \<Rightarrow> AppState" where
  "run [] s = s"
| "run (e # es) s = run es (applyEffect e s)"

fun trace :: "effect list \<Rightarrow> AppState \<Rightarrow> AppState list" where
  "trace [] s = [s]"
| "trace (e # es) s = s # trace es (applyEffect e s)"

fun isFetch :: "effect \<Rightarrow> bool" where
  "isFetch (Fetch url body) = True"
| "isFetch _ = False"

definition hasRubric :: "AppState \<Rightarrow> bool" where
  "hasRubric s \<longleftrightarrow> length (trim (rubricJson s)) > 0"

section \<open>sendWebhookRequest\<close>

text \<open>
  \<open>reply\<close> is what the network answers to the one request of the call: a rejection of
  \<open>fetch\<close> (or of reading the body), or a response. The result is the request that was
  sent and the value returned (\<open>Inr\<close>) or thrown (\<open>Inl\<close>).
\<close>

definition sendWebhookRequest ::
  "jsstring \<Rightarrow> FormData \<Rightarrow> thrown + Response \<Rightarrow> effect list \<times> (thrown + jsvalue)" where
  "sendWebhookRequest url body reply =
     ([Fetch url body],
      case reply of
        Inl rejection \<Rightarrow> Inl rejection
      | Inr response \<Rightarrow>
          (let responseText = bodyText response in
           if \<not> ok response then
             (let parsed = parseJsonSafely responseText;
                  details = (if truthy parsed then formatJson parsed else responseText)
              in Inl (WebhookThrown
                   \<lparr>message =
                      js ''Error '' @ natToString (status response) @ js '': '' @
                      (if statusText response \<noteq> [] then statusText response
                       else js ''al invocar el webhook''),
                    details = Some details\<rparr>))
           else
             (let parsed = parseJsonSafely responseText
              in Inr (if parsed \<noteq> JNull then parsed else JStr responseText))))"

section \<open>The handlers\<close>

text \<open>
  \<open>typeof result === 'string' ? extractIframeContent(result) : result\<close>, shared by
  the three actions.
\<close>

fun processResult :: "jsvalue \<Rightarrow> jsvalue" where
  "processResult (JStr t) = JStr (extractIframeContent t)"
| "processResult v = v"

fun printable :: "jsvalue \<Rightarrow> jsstring" where
  "printable (JStr t) = t"
| "printable v = formatJson v"

definition msgSelectPdf :: jsstring where
  "msgSelectPdf = js (''Selecciona un archivo PDF antes de generar la r'' @ [CHR 0xFA] @ ''brica.'')"

definition msgRubricUrl :: jsstring where
  "msgRubricUrl = js ''Configura la variable VITE_RUBRIC_WEBHOOK_URL en tu archivo .env.''"

definition msgNeedRubric :: jsstring where
  "msgNeedRubric =
     js (''Necesitas generar o importar una r'' @ [CHR 0xFA] @ ''brica JSON antes de corregir.'')"

definition msgSelectSubmission :: jsstring where
  "msgSelectSubmission = js ''Selecciona un archivo para corregir.''"

definition msgGradingUrl :: jsstring where
  "msgGradingUrl = js ''Configura la variable VITE_GRADING_WEBHOOK_URL en tu archivo .env.''"

definition msgSpreadsheetUrl :: jsstring where
  "msgSpreadsheetUrl = js ''Configura la variable VITE_SPREADSHEET_WEBHOOK_URL en tu archivo .env.''"

definition msgSpreadsheetFields :: jsstring where
  "msgSpreadsheetFields =
     js ''Completa la URL de la planilla, el nombre de la hoja y el nombre del alumno antes de enviar.''"

definition msgInvalidJson :: jsstring where
  "msgInvalidJson = js (''El archivo no contiene un JSON v'' @ [CHR 0xE1] @ ''lido.'')"

definition msgUnreadable :: jsstring where
  "msgUnreadable = js (''No se pudo leer la r'' @ [CHR 0xFA] @ ''brica JSON.'')"

definition validationError :: "jsstring \<Rightarrow> WebhookError option" where
  "validationError m = Some \<lparr>message = m, details = None\<rparr>"

definition handleGenerateRubric :: "Env \<Rightarrow> AppState \<Rightarrow> thrown + Response \<Rightarrow> effect list" where
  "handleGenerateRubric env s reply =
     (case rubricPdf s of
        None \<Rightarrow> [SetRubricError (validationError msgSelectPdf)]
      | Some pdf \<Rightarrow>
          if rubricWebhookUrl env = [] then [SetRubricError (validationError msgRubricUrl)]
          else
            [SetIsGeneratingRubric True, SetRubricError None] @
            (case sendWebhookRequest (rubricWebhookUrl env) [(js ''pdf'', FormFile pdf)] reply of
               (sent, Inr result) \<Rightarrow>
                 sent @
                 [SetRubricJson (printable (processResult result)),
                  SetRubricSource (Some Generada)]
             | (sent, Inl error) \<Rightarrow> sent @ [SetRubricError (Some (asWebhookError error))]) @
            [SetIsGeneratingRubric False])"

definition handleGradeSubmission :: "Env \<Rightarrow> AppState \<Rightarrow> thrown + Response \<Rightarrow> effect list" where
  "handleGradeSubmission env s reply =
     (if \<not> hasRubric s then [SetGradingError (validationError msgNeedRubric)]
      else
        (case submissionFile s of
           None \<Rightarrow> [SetGradingError (validationError msgSelectSubmission)]
         | Some submission \<Rightarrow>
             if gradingWebhookUrl env = [] then [SetGradingError (validationError msgGradingUrl)]
             else
               [SetIsGrading True, SetGradingError None, SetGradingResponse JNull] @
               (case sendWebhookRequest (gradingWebhookUrl env)
                       [(js ''rubric'',
                         FormBlob (rubricJson s) (js ''application/json'') (js ''rubrica.json'')),
                        (js ''submission'', FormFile submission)] reply of
                  (sent, Inr result) \<Rightarrow> sent @ [SetGradingResponse (processResult result)]
                | (sent, Inl error) \<Rightarrow> sent @ [SetGradingError (Some (asWebhookError error))]) @
               [SetIsGrading False]))"

definition handleUploadToSpreadsheet :: "Env \<Rightarrow> AppState \<Rightarrow> thrown + Response \<Rightarrow> effect list" where
  "handleUploadToSpreadsheet env s reply =
     (if spreadsheetWebhookUrl env = [] then
        [SetSpreadsheetError (validationError msgSpreadsheetUrl)]
      else if trim (spreadsheetUrl s) = [] \<or> trim (spreadsheetSheetName s) = [] \<or>
              trim (spreadsheetStudentName s) = [] then
        [SetSpreadsheetError (validationError msgSpreadsheetFields)]
      else
        [SetIsUploadingSpreadsheet True, SetSpreadsheetError None, SetSpreadsheetResponse JNull] @
        (case sendWebhookRequest (spreadsheetWebhookUrl env)
                [(js ''spreadsheet_url'', FormText (spreadsheetUrl s)),
                 (js ''sheet_name'', FormText (spreadsheetSheetName s)),
                 (js ''alumno'', FormText (spreadsheetStudentName s)),
                 (js ''nota'', FormText (spreadsheetGrade s)),
                 (js ''resumen_por_criterios'', FormText (spreadsheetSummaryByCriteria s)),
                 (js ''fortalezas'', FormText (spreadsheetStrengths s)),
                 (js ''recomendaciones'', FormText (spreadsheetRecommendations s))] reply of
           (sent, Inr result) \<Rightarrow> sent @ [SetSpreadsheetResponse (processResult result)]
         | (sent, Inl error) \<Rightarrow> sent @ [SetSpreadsheetError (Some (asWebhookError error))]) @
        [SetIsUploadingSpreadsheet False])"

text \<open>
  The import reads the first selected file. Inside its \<open>try\<close>, a text that
  \<open>parseJsonSafely\<close> turns into a falsy value throws the fixed message; the \<open>catch\<close>
  stores the message of whatever was thrown.
\<close>

text \<open>
  The message of the TypeError that the serializer throws is chosen by the engine (this
  is the one of V8). No run of the import reaches it: every parsed value is serialized.
\<close>

definition msgTypeError :: jsstring where
  "msgTypeError = js ''Do not know how to serialize a BigInt''"

definition importAttempt :: "File \<Rightarrow> thrown + jsstring" where
  "importAttempt file =
     (case fileText file of
        Inl rejection \<Rightarrow> Inl rejection
      | Inr text \<Rightarrow>
          (let parsed = parseJsonSafely text in
           if \<not> truthy parsed then Inl (ErrorInstance msgInvalidJson)
           else
             (case JSON_stringify parsed of
                None \<Rightarrow> Inl (ErrorInstance msgTypeError)
              | Some pretty \<Rightarrow> Inr pretty)))"

definition handleRubricImport :: "File list \<Rightarrow> effect list" where
  "handleRubricImport files =
     (case files of
        [] \<Rightarrow> []
      | file # _ \<Rightarrow>
          (case importAttempt file of
             Inr pretty \<Rightarrow>
               [SetRubricJson pretty, SetRubricSource (Some Importada), SetRubricError None]
           | Inl error \<Rightarrow>
               [SetRubricError
                  (Some \<lparr>message = (case error of ErrorInstance m \<Rightarrow> m | _ \<Rightarrow> msgUnreadable),
                         details = None\<rparr>)]))"

text \<open>
  Each action is started by a button that is disabled while the busy flag of the action
  is set (\<open>disabled={isGeneratingRubric}\<close>, \<open>disabled={isGrading}\<close>,
  \<open>disabled={isUploadingSpreadsheet}\<close>): a click on a disabled button starts nothing.
\<close>

datatype action = GenerateRubric | GradeSubmission | UploadToSpreadsheet

fun busy :: "action \<Rightarrow> AppState \<Rightarrow> bool" where
  "busy GenerateRubric s = isGeneratingRubric s"
| "busy GradeSubmission s = isGrading s"
| "busy UploadToSpreadsheet s = isUploadingSpreadsheet s"

fun handler :: "action \<Rightarrow> Env \<Rightarrow> AppState \<Rightarrow> thrown + Response \<Rightarrow> effect list" where
  "handler GenerateRubric = handleGenerateRubric"
| "handler GradeSubmission = handleGradeSubmission"
| "handler UploadToSpreadsheet = handleUploadToSpreadsheet"

definition click :: "action \<Rightarrow> Env \<Rightarrow> AppState \<Rightarrow> thrown + Response \<Rightarrow> effect list option" where
  "click a env s reply = (if busy a s then None else Some (handler a env s reply))"

section \<open>Properties of extractIframeContent\<close>

text \<open>
  \<open>occursIn pat s\<close>: the text \<open>pat\<close> stands somewhere in \<open>s\<close>. It is used to say
  which parts of an input hold no backslash followed by \<open>n\<close>.
\<close>

fun occursIn :: "jsstring \<Rightarrow> jsstring \<Rightarrow> bool" where
  "occursIn pat [] = (pat = [])"
| "occursIn pat (c # cs) = (take (length pat) (c # cs) = pat \<or> occursIn pat cs)"

lemma replaceAll_skip:
  "take (length pat) (c # cs) \<noteq> pat \<Longrightarrow> replaceAll pat rep (c # cs) = c # replaceAll pat rep cs"
  by simp

lemma replaceAll_hit:
  "pat \<noteq> [] \<Longrightarrow> replaceAll pat rep (pat @ rest) = rep @ replaceAll pat rep rest"
  by (cases pat) simp_all

lemma replaceAll_free_prefix:
  "\<not> occursIn backslash_n p \<Longrightarrow>
   replaceAll backslash_n newline (p @ backslash_n @ rest) =
   p @ newline @ replaceAll backslash_n newline rest"
proof (induction p)
  case Nil
  show ?case using replaceAll_hit[of backslash_n newline rest] by (simp add: backslash_n_def)
next
  case (Cons c cs)
  from Cons.prems have here: "take (length backslash_n) (c # cs) \<noteq> backslash_n"
    and later: "\<not> occursIn backslash_n cs"
    by simp_all
  have "take (length backslash_n) (c # (cs @ backslash_n @ rest)) \<noteq> backslash_n"
  proof (cases cs)
    case Nil
    then show ?thesis by (simp add: backslash_n_def)
  next
    case (Cons d ds)
    with here show ?thesis by (simp add: backslash_n_def)
  qed
  then have "replaceAll backslash_n newline (c # (cs @ backslash_n @ rest)) =
             c # replaceAll backslash_n newline (cs @ backslash_n @ rest)"
    by (rule replaceAll_skip)
  with Cons.IH[OF later] show ?case by simp
qed

lemma replaceAll_free:
  "\<not> occursIn backslash_n p \<Longrightarrow> replaceAll backslash_n newline p = p"
  by (induction p) (auto simp: backslash_n_def)

lemma replaceAll_joinWith:
  "\<forall>p\<in>set parts. \<not> occursIn backslash_n p \<Longrightarrow>
   replaceAll backslash_n newline (joinWith backslash_n parts) = joinWith newline parts"
proof (induction backslash_n parts rule: joinWith.induct)
  case 1
  show ?case by simp
next
  case (2 x)
  then show ?case by (simp add: replaceAll_free)
next
  case (3 x y ys)
  then show ?case by (simp add: replaceAll_free_prefix)
qed

text \<open>
  C3. When the iframe pattern matches and the captured \<open>srcdoc\<close> value is not empty,
  the result is the captured value with \<open>&quot;\<close>, \<open>&lt;\<close>, \<open>&gt;\<close>, \<open>&amp;\<close>
  decoded in this order and then every backslash followed by \<open>n\<close> turned into a line
  feed. On \<^verbatim>\<open><iframe srcdoc="{&quot;a&quot;:1}"></iframe>\<close> the result is
  \<^verbatim>\<open>{"a":1}\<close>; and since \<open>&amp;\<close> is decoded last, \<open>&amp;lt;\<close> becomes
  \<open>&lt;\<close> and is not decoded twice.
\<close>

theorem extractIframeContent_decodes_capture:
  assumes "rx_search iframePattern text = Some captured" and "captured \<noteq> []"
  shows "extractIframeContent text =
           replaceAll backslash_n newline
             (replaceAll (js ''&amp;'') (js ''&'')
               (replaceAll (js ''&gt;'') (js ''>'')
                 (replaceAll (js ''&lt;'') (js ''<'')
                   (replaceAll (js ''&quot;'') [0x22] captured)))) \<and>
         extractIframeContent (js ''<iframe srcdoc=\"{&quot;a&quot;:1}\"></iframe>'') =
           js ''{\"a\":1}'' \<and>
         extractIframeContent (js ''<iframe srcdoc=\"&amp;lt;\">'') = js ''&lt;''"
proof -
  from assms obtain c cs where "captured = c # cs"
    by (cases captured) simp_all
  with assms(1) have general: "extractIframeContent text =
      replaceAll backslash_n newline
        (replaceAll (js ''&amp;'') (js ''&'')
          (replaceAll (js ''&gt;'') (js ''>'')
            (replaceAll (js ''&lt;'') (js ''<'')
              (replaceAll (js ''&quot;'') [0x22] captured))))"
    by (simp add: extractIframeContent_def)
  have example: "extractIframeContent (js ''<iframe srcdoc=\"{&quot;a&quot;:1}\"></iframe>'') =
      js ''{\"a\":1}''"
    by code_simp
  have order: "extractIframeContent (js ''<iframe srcdoc=\"&amp;lt;\">'') = js ''&lt;''"
    by code_simp
  from general example order show ?thesis by simp
qed

theorem extractIframeContent_decodes_capture_witness:
  "rx_search iframePattern (js ''<IFRAME id=x srcdoc='a&gt;b' >'') = Some (js ''a&gt;b'') \<and>
   js ''a&gt;b'' \<noteq> [] \<and>
   extractIframeContent (js ''<IFRAME id=x srcdoc='a&gt;b' >'') = js ''a>b''"
proof -
  have m: "rx_search iframePattern (js ''<IFRAME id=x srcdoc='a&gt;b' >'') = Some (js ''a&gt;b'')"
    by code_simp
  have n: "js ''a&gt;b'' \<noteq> []"
    by (simp add: js_def)
  have r: "replaceAll backslash_n newline
             (replaceAll (js ''&amp;'') (js ''&'')
               (replaceAll (js ''&gt;'') (js ''>'')
                 (replaceAll (js ''&lt;'') (js ''<'')
                   (replaceAll (js ''&quot;'') [0x22] (js ''a&gt;b''))))) = js ''a>b''"
    by code_simp
  from extractIframeContent_decodes_capture[OF m n] r m n show ?thesis by simp
qed

text \<open>
  C4. When the iframe pattern does not match, the result is the whole input with every
  backslash followed by \<open>n\<close> replaced by a line feed: whenever the input is a list of
  parts that hold no such pair, joined by that pair, the result is the same parts joined
  by line feeds, so that no other code unit is altered. The function is total: it
  returns a string on every input.
\<close>

theorem extractIframeContent_without_match:
  assumes "rx_search iframePattern text = None"
  shows "extractIframeContent text = replaceAll backslash_n newline text \<and>
         (\<forall>parts. text = joinWith backslash_n parts \<and> (\<forall>p\<in>set parts. \<not> occursIn backslash_n p)
            \<longrightarrow> extractIframeContent text = joinWith newline parts)"
proof -
  from assms have whole: "extractIframeContent text = replaceAll backslash_n newline text"
    by (simp add: extractIframeContent_def)
  have "extractIframeContent text = joinWith newline parts"
    if "text = joinWith backslash_n parts" and "\<forall>p\<in>set parts. \<not> occursIn backslash_n p"
    for parts
    using whole that replaceAll_joinWith[of parts] by simp
  with whole show ?thesis by blast
qed

theorem extractIframeContent_without_match_witness:
  "rx_search iframePattern (js (''{'' @ [CHR 0x5C] @ ''n  x'' @ [CHR 0x5C] @ ''n}'')) = None \<and>
   js (''{'' @ [CHR 0x5C] @ ''n  x'' @ [CHR 0x5C] @ ''n}'') =
     joinWith backslash_n [js ''{'', js ''  x'', js ''}''] \<and>
   \<not> occursIn backslash_n (js ''{'') \<and>
   \<not> occursIn backslash_n (js ''  x'') \<and>
   \<not> occursIn backslash_n (js ''}'') \<and>
   extractIframeContent (js (''{'' @ [CHR 0x5C] @ ''n  x'' @ [CHR 0x5C] @ ''n}'')) =
     js ''{'' @ newline @ js ''  x'' @ newline @ js ''}''"
proof -
  have m: "rx_search iframePattern (js (''{'' @ [CHR 0x5C] @ ''n  x'' @ [CHR 0x5C] @ ''n}'')) = None"
    by code_simp
  have j: "js (''{'' @ [CHR 0x5C] @ ''n  x'' @ [CHR 0x5C] @ ''n}'') =
      joinWith backslash_n [js ''{'', js ''  x'', js ''}'']"
    by (simp add: js_def backslash_n_def)
  have f: "\<not> occursIn backslash_n (js ''{'')" "\<not> occursIn backslash_n (js ''  x'')"
    "\<not> occursIn backslash_n (js ''}'')"
    by (simp_all add: js_def backslash_n_def)
  then have g: "\<forall>p\<in>set [js ''{'', js ''  x'', js ''}'']. \<not> occursIn backslash_n p"
    by simp
  from extractIframeContent_without_match[OF m] j g
  have "extractIframeContent (js (''{'' @ [CHR 0x5C] @ ''n  x'' @ [CHR 0x5C] @ ''n}'')) =
      joinWith newline [js ''{'', js ''  x'', js ''}'']"
    by blast
  with m j f show ?thesis by simp
qed

section \<open>Every parsed value can be serialized\<close>

text \<open>
  A value is serializable when no \<open>JBigInt\<close> stands inside it. The serializer returns
  a text on every serializable value, and \<open>JSON.parse\<close> returns serializable values
  only: the stack machine never holds another value.
\<close>

fun serializable :: "jsvalue \<Rightarrow> bool" where
  "serializable (JBigInt i) = False"
| "serializable (JArr vs) = (\<forall>v\<in>set vs. serializable v)"
| "serializable (JObj ps) = (\<forall>p\<in>set ps. serializable (snd p))"
| "serializable v = True"

lemma those_map_Some:
  "(\<forall>x\<in>set xs. \<exists>y. f x = Some y) \<Longrightarrow> \<exists>ys. those (map f xs) = Some ys"
  by (induction xs) auto

lemma serialize_Some: "serializable v \<Longrightarrow> \<exists>t. serialize ind v = Some t"
proof (induction v arbitrary: ind)
  case (JArr vs)
  then have "\<forall>x\<in>set vs. \<exists>y. serialize (ind @ gap) x = Some y" by simp
  from those_map_Some[OF this] show ?case by auto
next
  case (JObj ps)
  have "\<forall>p\<in>set ps. \<exists>y. map_option (\<lambda>t. quoteJSONString (fst p) @ js '': '' @ t)
            (serialize (ind @ gap) (snd p)) = Some y"
  proof
    fix p assume p: "p \<in> set ps"
    then have "snd p \<in> Basic_BNFs.snds p" and "serializable (snd p)"
      using JObj.prems by (auto simp: snds.simps)
    with JObj.IH[OF p] show "\<exists>y. map_option (\<lambda>t. quoteJSONString (fst p) @ js '': '' @ t)
            (serialize (ind @ gap) (snd p)) = Some y"
      by fastforce
  qed
  from those_map_Some[OF this] show ?case by auto
qed simp_all

fun frameOk :: "frame \<Rightarrow> bool" where
  "frameOk (ArrayFrame es) = (\<forall>v\<in>set es. serializable v)"
| "frameOk (ObjectFrame ps) = (\<forall>p\<in>set ps. serializable (snd p))"
| "frameOk (PropertyFrame ps k) = (\<forall>p\<in>set ps. serializable (snd p))"

definition stateOk :: "expect \<times> frame list \<Rightarrow> bool" where
  "stateOk state \<longleftrightarrow>
     list_all frameOk (snd state) \<and>
     (case fst state of Complete v \<Rightarrow> serializable v | _ \<Rightarrow> True)"

lemma insertIndexed_values: "p \<in> set (insertIndexed k v ps) \<Longrightarrow> p = (k, v) \<or> p \<in> set ps"
  by (induction ps) (auto split: if_splits)

lemma defineProperty_ok:
  "serializable v \<Longrightarrow> \<forall>p\<in>set ps. serializable (snd p) \<Longrightarrow>
   \<forall>p\<in>set (defineProperty k v ps). serializable (snd p)"
  by (auto simp: defineProperty_def dest: insertIndexed_values split: if_splits)

lemma deliver_ok:
  "serializable v \<Longrightarrow> list_all frameOk st \<Longrightarrow> deliver v st = Some state \<Longrightarrow> stateOk state"
proof (cases "(v, st)" rule: deliver.cases)
  case (3 v' ps k st')
  assume "serializable v" "list_all frameOk st" "deliver v st = Some state"
  with 3 defineProperty_ok[of v ps k] show ?thesis
    by (auto simp: stateOk_def)
qed (auto simp: stateOk_def)

lemma scalar_ok: "scalar t = Some v \<Longrightarrow> serializable v"
  by (cases t) auto

lemma parse_value_ok:
  assumes "list_all frameOk st" and "parse_value closable st t = Some state"
  shows "stateOk state"
proof (cases "scalar t")
  case (Some v)
  with assms show ?thesis
    by (auto simp: parse_value_def dest: scalar_ok intro: deliver_ok)
next
  case None
  show ?thesis
  proof (cases "t = TLBracket \<or> t = TLBrace")
    case True
    with None assms show ?thesis
      by (auto simp: parse_value_def stateOk_def)
  next
    case False
    with None assms obtain st' where "st = ArrayFrame [] # st'" and "deliver (JArr []) st' = Some state"
      by (auto simp: parse_value_def split: if_splits list.splits frame.splits)
    with assms(1) deliver_ok[of "JArr []" st' state] show ?thesis by simp
  qed
qed

lemma parse_key_ok:
  assumes "list_all frameOk st" and "parse_key closable st t = Some state"
  shows "stateOk state"
proof -
  from assms(2) obtain ps st' where st: "st = ObjectFrame ps # st'"
    by (auto simp: parse_key_def split: token.splits list.splits frame.splits)
  show ?thesis
  proof (cases t)
    case (TString k)
    with st assms show ?thesis by (auto simp: parse_key_def stateOk_def)
  next
    case TRBrace
    with st assms have "deliver (JObj ps) st' = Some state" and "serializable (JObj ps)"
      by (auto simp: parse_key_def split: if_splits)
    with st assms(1) deliver_ok[of "JObj ps" st' state] show ?thesis by simp
  qed (use st assms in \<open>auto simp: parse_key_def\<close>)
qed

lemma parse_next_ok:
  assumes "list_all frameOk st" and "parse_next st t = Some state"
  shows "stateOk state"
proof (cases st)
  case Nil
  with assms show ?thesis by (auto simp: parse_next_def split: token.splits)
next
  case (Cons f st')
  show ?thesis
  proof (cases f)
    case (ArrayFrame es)
    show ?thesis
    proof (cases t)
      case TComma
      with Cons ArrayFrame assms show ?thesis by (auto simp: parse_next_def stateOk_def)
    next
      case TRBracket
      with Cons ArrayFrame assms have "deliver (JArr (rev es)) st' = Some state"
        and "serializable (JArr (rev es))"
        by (auto simp: parse_next_def)
      with Cons assms(1) deliver_ok[of "JArr (rev es)" st' state] show ?thesis by simp
    qed (use Cons ArrayFrame assms in \<open>auto simp: parse_next_def\<close>)
  next
    case (ObjectFrame ps)
    show ?thesis
    proof (cases t)
      case TComma
      with Cons ObjectFrame assms show ?thesis by (auto simp: parse_next_def stateOk_def)
    next
      case TRBrace
      with Cons ObjectFrame assms have "deliver (JObj ps) st' = Some state"
        and "serializable (JObj ps)"
        by (auto simp: parse_next_def)
      with Cons assms(1) deliver_ok[of "JObj ps" st' state] show ?thesis by simp
    qed (use Cons ObjectFrame assms in \<open>auto simp: parse_next_def\<close>)
  next
    case (PropertyFrame ps k)
    with Cons assms show ?thesis by (auto simp: parse_next_def split: token.splits)
  qed
qed

lemma parse_step_ok:
  assumes "stateOk state" and "parse_step state t = Some state'"
  shows "stateOk state'"
proof -
  obtain e st where state: "state = (e, st)" by (cases state)
  with assms(1) have frames: "list_all frameOk st" by (simp add: stateOk_def)
  show ?thesis
  proof (cases e)
    case ExpectColon
    with state assms frames show ?thesis by (auto simp: stateOk_def split: if_splits)
  next
    case (Complete v)
    with state assms show ?thesis by simp
  qed (use state assms(2) frames in \<open>auto intro: parse_value_ok parse_key_ok parse_next_ok\<close>)
qed

lemma parse_tokens_ok: "stateOk state \<Longrightarrow> parse_tokens state ts = Some v \<Longrightarrow> serializable v"
proof (induction ts arbitrary: state)
  case Nil
  then show ?case
    by (cases "(state, []::token list)" rule: parse_tokens.cases) (auto simp: stateOk_def)
next
  case (Cons t ts)
  then show ?case
    by (auto split: option.splits dest: parse_step_ok)
qed

lemma JSON_parse_serializable: "JSON_parse text = Some v \<Longrightarrow> serializable v"
proof -
  assume "JSON_parse text = Some v"
  then obtain ts where "parse_tokens (ExpectValue, []) ts = Some v"
    by (auto simp: JSON_parse_def split: option.splits)
  moreover have "stateOk (ExpectValue, [])" by (simp add: stateOk_def)
  ultimately show ?thesis by (rule parse_tokens_ok[rotated])
qed

lemma JSON_parse_stringify: "JSON_parse text = Some v \<Longrightarrow> \<exists>t. JSON_stringify v = Some t"
  unfolding JSON_stringify_def by (rule serialize_Some) (rule JSON_parse_serializable)

section \<open>Properties of formatJson\<close>

text \<open>
  The number one: the literal \<open>1\<close> denotes the bits \<open>3FF0000000000000\<close>, which are
  printed as \<open>1\<close>. Literals outside the range or the precision of binary64 are
  rounded: \<open>1e-400\<close> denotes zero, \<open>1e400\<close> the positive infinity, and
  \<open>9007199254740993\<close> the number \<open>9007199254740992\<close>.
\<close>

lemma toBinary64_one: "toBinary64 1 1 = Some (4503599627370496, - 52)"
proof -
  have "bitLength 1 = 1"
    by (simp add: bitLength.simps)
  then show ?thesis
    by (simp add: toBinary64_def floorLog2_def roundHalfEven_def Let_def)
qed

lemma mkNumber_one: "mkNumber False [1] [] 0 = 0x3FF0000000000000"
  by (simp add: mkNumber_def intOfDigits_def toBinary64_one encode_def)

lemma numberToString_one: "numberToString 0x3FF0000000000000 = js ''1''"
proof -
  have bits: "magnitude 0x3FF0000000000000 = (4503599627370496, - 52)"
    by (simp add: magnitude_def exponentBits_def fractionBits_def)
  have digits: "decimalDigits 4503599627370496 = [4, 5, 0, 3, 5, 9, 9, 6, 2, 7, 3, 7, 0, 4, 9, 6]"
    "decimalDigits 1 = [1]"
    by (simp_all add: decimalDigits.simps)
  have point: "decimalPoint 4503599627370496 4503599627370496 = 1"
    by (simp add: decimalPoint_def digits Let_def)
  have "nearest (4503599627370496, - 52) 1 True = Some (1, 1)"
    by (simp add: nearest_def point roundTrips_def toBinary64_one Let_def)
  then have "shortest (4503599627370496, - 52) = (1, 1, 1)"
    by (simp add: shortest_def)
  with bits digits show ?thesis
    by (simp add: numberToString_def isNaN_def isZero_def isInfinite_def signBit_def
        exponentBits_def fractionBits_def digitChar_def js_def)
qed

lemma JSON_parse_rounds:
  "JSON_parse (js ''1e-400'') = Some (JNum 0)"
  "JSON_parse (js ''1e400'') = Some (JNum 0x7FF0000000000000)"
  "JSON_parse (js ''9007199254740993'') = Some (JNum 0x4340000000000000)"
  "JSON_parse (js ''9007199254740992'') = Some (JNum 0x4340000000000000)"
  by code_simp+

text \<open>
  C8. For every value, \<open>formatJson\<close> returns the text of
  \<open>JSON.stringify(value, null, 2)\<close>; when the serializer throws, it returns the value
  itself if that is a string and the empty string otherwise (a string is always
  serialized, so the first of the two never happens). It is total: it never raises.
  \<open>formatJson({x:1})\<close> is an opening brace, a line feed, two spaces and \<open>"x": 1\<close>, a
  line feed and a closing brace, where \<open>{x:1}\<close> is the value of the text
  \<^verbatim>\<open>{"x":1}\<close> and its number is the binary64 value one.
\<close>

theorem formatJson_is_stringify:
  "(\<forall>t. JSON_stringify v = Some t \<longrightarrow> formatJson v = t) \<and>
   (JSON_stringify v = None \<longrightarrow> formatJson v = (case v of JStr s \<Rightarrow> s | _ \<Rightarrow> [])) \<and>
   JSON_stringify (JStr s) \<noteq> None \<and>
   formatJson (JObj [(js ''x'', JNum (mkNumber False [1] [] 0))]) =
     js ''{'' @ newline @ js ''  \"x\": 1'' @ newline @ js ''}'' \<and>
   JSON_parse (js ''{\"x\":1}'') = Some (JObj [(js ''x'', JNum (mkNumber False [1] [] 0))]) \<and>
   mkNumber False [1] [] 0 = 0x3FF0000000000000"
proof -
  have printed: "formatJson (JObj [(js ''x'', JNum (mkNumber False [1] [] 0))]) =
      js ''{'' @ newline @ js ''  \"x\": 1'' @ newline @ js ''}''"
  proof -
    have key: "quoteJSONString (js ''x'') = js ''\"x\"''"
      by code_simp
    have finite: "\<not> isNaN 0x3FF0000000000000" "\<not> isInfinite 0x3FF0000000000000"
      by (simp_all add: isNaN_def isInfinite_def exponentBits_def)
    have "serialize gap (JNum 0x3FF0000000000000) = Some (js ''1'')"
      using finite by (simp add: numberToString_one)
    then have "JSON_stringify (JObj [(js ''x'', JNum 0x3FF0000000000000)]) =
        Some (js ''{'' @ newline @ gap @ js ''\"x\"'' @ js '': '' @ js ''1'' @ newline @ js ''}'')"
      by (simp add: JSON_stringify_def key)
    then show ?thesis
      unfolding mkNumber_one by (simp add: formatJson_def gap_def js_def)
  qed
  have parsed: "JSON_parse (js ''{\"x\":1}'') = Some (JObj [(js ''x'', JNum (mkNumber False [1] [] 0))])"
    by code_simp
  have string: "JSON_stringify (JStr s) \<noteq> None"
    by (simp add: JSON_stringify_def)
  have returned: "\<forall>t. JSON_stringify v = Some t \<longrightarrow> formatJson v = t"
    by (simp add: formatJson_def)
  have caught: "JSON_stringify v = None \<longrightarrow> formatJson v = (case v of JStr s \<Rightarrow> s | _ \<Rightarrow> [])"
    by (simp add: formatJson_def)
  from returned caught string printed parsed mkNumber_one show ?thesis
    by blast
qed

theorem formatJson_is_stringify_witness:
  "JSON_stringify (JArr [JBool True]) = Some (js ''['' @ newline @ js ''  true'' @ newline @ js '']'') \<and>
   formatJson (JArr [JBool True]) = js ''['' @ newline @ js ''  true'' @ newline @ js '']'' \<and>
   JSON_stringify (JArr [JBigInt 7]) = None \<and>
   formatJson (JArr [JBigInt 7]) = []"
proof -
  have a: "JSON_stringify (JArr [JBool True]) =
      Some (js ''['' @ newline @ js ''  true'' @ newline @ js '']'')"
    by code_simp
  have b: "JSON_stringify (JArr [JBigInt 7]) = None"
    by (simp add: JSON_stringify_def)
  from formatJson_is_stringify[of "JArr [JBool True]"] a
  have "formatJson (JArr [JBool True]) = js ''['' @ newline @ js ''  true'' @ newline @ js '']''"
    by blast
  moreover from formatJson_is_stringify[of "JArr [JBigInt 7]"] b
  have "formatJson (JArr [JBigInt 7]) = []"
    by simp
  ultimately show ?thesis using a b by simp
qed

section \<open>Properties of sendWebhookRequest\<close>

text \<open>
  C1, as the code has it. For every URL and body, when the response has a success
  status, one request is sent and the call returns the value parsed from the response
  text whenever the text parses as JSON to a value other than \<open>null\<close>; it returns the
  response text unchanged whenever the text does not parse as JSON or parses to
  \<open>null\<close>.
\<close>

theorem sendWebhookRequest_success:
  assumes "ok response"
  shows "fst (sendWebhookRequest url body (Inr response)) = [Fetch url body] \<and>
         (\<forall>v. JSON_parse (bodyText response) = Some v \<and> v \<noteq> JNull \<longrightarrow>
            snd (sendWebhookRequest url body (Inr response)) = Inr v) \<and>
         (JSON_parse (bodyText response) = None \<or> JSON_parse (bodyText response) = Some JNull \<longrightarrow>
            snd (sendWebhookRequest url body (Inr response)) = Inr (JStr (bodyText response)))"
  using assms by (auto simp: sendWebhookRequest_def parseJsonSafely_def Let_def)

theorem sendWebhookRequest_success_witness:
  "ok \<lparr>status = 200, statusText = js ''OK'', bodyText = js ''[true]''\<rparr> \<and>
   JSON_parse (js ''[true]'') = Some (JArr [JBool True]) \<and> JArr [JBool True] \<noteq> JNull \<and>
   snd (sendWebhookRequest (js ''https://n8n/webhook'') []
          (Inr \<lparr>status = 200, statusText = js ''OK'', bodyText = js ''[true]''\<rparr>)) =
     Inr (JArr [JBool True]) \<and>
   ok \<lparr>status = 204, statusText = [], bodyText = js ''done''\<rparr> \<and>
   JSON_parse (js ''done'') = None \<and>
   snd (sendWebhookRequest (js ''https://n8n/webhook'') []
          (Inr \<lparr>status = 204, statusText = [], bodyText = js ''done''\<rparr>)) =
     Inr (JStr (js ''done''))"
proof -
  have ok1: "ok \<lparr>status = 200, statusText = js ''OK'', bodyText = js ''[true]''\<rparr>"
    by (simp add: ok_def)
  have p1: "JSON_parse (js ''[true]'') = Some (JArr [JBool True])"
    by code_simp
  have ok2: "ok \<lparr>status = 204, statusText = [], bodyText = js ''done''\<rparr>"
    by (simp add: ok_def)
  have p2: "JSON_parse (js ''done'') = None"
    by code_simp
  from sendWebhookRequest_success[OF ok1, of "js ''https://n8n/webhook''" "[]"] p1
  have r1: "snd (sendWebhookRequest (js ''https://n8n/webhook'') []
          (Inr \<lparr>status = 200, statusText = js ''OK'', bodyText = js ''[true]''\<rparr>)) =
     Inr (JArr [JBool True])"
    by simp
  from sendWebhookRequest_success[OF ok2, of "js ''https://n8n/webhook''" "[]"] p2
  have r2: "snd (sendWebhookRequest (js ''https://n8n/webhook'') []
          (Inr \<lparr>status = 204, statusText = [], bodyText = js ''done''\<rparr>)) =
     Inr (JStr (js ''done''))"
    by simp
  from ok1 p1 r1 ok2 p2 r2 show ?thesis by simp
qed

text \<open>
  The claim as stated fails on the response text \<open>null\<close>: the text parses as JSON, to
  the value \<open>null\<close>, and the call returns the text, a string, not that value.
\<close>

theorem sendWebhookRequest_success_counterexample:
  "ok \<lparr>status = 200, statusText = js ''OK'', bodyText = js ''null''\<rparr> \<and>
   JSON_parse (js ''null'') = Some JNull \<and>
   snd (sendWebhookRequest (js ''https://n8n/webhook'') []
          (Inr \<lparr>status = 200, statusText = js ''OK'', bodyText = js ''null''\<rparr>)) =
     Inr (JStr (js ''null'')) \<and>
   snd (sendWebhookRequest (js ''https://n8n/webhook'') []
          (Inr \<lparr>status = 200, statusText = js ''OK'', bodyText = js ''null''\<rparr>)) \<noteq>
     Inr JNull"
proof -
  have p: "JSON_parse (js ''null'') = Some JNull"
    by code_simp
  then show ?thesis
    by (simp add: sendWebhookRequest_def parseJsonSafely_def ok_def)
qed

text \<open>
  C2, as the code has it. For every URL and body, when the response has a status that
  is not a success, the call throws a WebhookError whose message is \<open>Error\<close>, the
  status, a colon and the status text (\<open>al invocar el webhook\<close> when the status text
  is empty), and whose details are the two-space pretty print of the parsed response
  text whenever the text parses as JSON to a truthy value (any value but \<open>null\<close>,
  \<open>false\<close>, zero and the empty string), and the response text itself whenever the
  text does not parse as JSON or parses to a falsy value. Every parsed value has a pretty
  print. For a status 500 with the text \<^verbatim>\<open>{"error":"boom"}\<close> the message starts with
  \<open>Error 500\<close> and the details are the pretty print of that object.
\<close>

theorem sendWebhookRequest_failure:
  assumes "\<not> ok response"
  shows "(\<forall>v pretty.
            JSON_parse (bodyText response) = Some v \<and> truthy v \<and> JSON_stringify v = Some pretty \<longrightarrow>
            snd (sendWebhookRequest url body (Inr response)) =
              Inl (WebhookThrown
                \<lparr>message = js ''Error '' @ natToString (status response) @ js '': '' @
                   (if statusText response = [] then js ''al invocar el webhook''
                    else statusText response),
                 details = Some pretty\<rparr>)) \<and>
         (\<forall>v. JSON_parse (bodyText response) = Some v \<longrightarrow> JSON_stringify v \<noteq> None) \<and>
         (JSON_parse (bodyText response) = None \<or>
          (\<exists>v. JSON_parse (bodyText response) = Some v \<and> \<not> truthy v) \<longrightarrow>
            snd (sendWebhookRequest url body (Inr response)) =
              Inl (WebhookThrown
                \<lparr>message = js ''Error '' @ natToString (status response) @ js '': '' @
                   (if statusText response = [] then js ''al invocar el webhook''
                    else statusText response),
                 details = Some (bodyText response)\<rparr>)) \<and>
         snd (sendWebhookRequest url body
                (Inr \<lparr>status = 500, statusText = reason, bodyText = js ''{\"error\":\"boom\"}''\<rparr>)) =
           Inl (WebhookThrown
             \<lparr>message = js ''Error 500: '' @
                (if reason = [] then js ''al invocar el webhook'' else reason),
              details = Some (js ''{'' @ newline @ js ''  \"error\": \"boom\"'' @ newline @ js ''}'')\<rparr>) \<and>
         JSON_parse (js ''{\"error\":\"boom\"}'') = Some (JObj [(js ''error'', JStr (js ''boom''))]) \<and>
         JSON_stringify (JObj [(js ''error'', JStr (js ''boom''))]) =
           Some (js ''{'' @ newline @ js ''  \"error\": \"boom\"'' @ newline @ js ''}'')"
proof -
  have truthy_case: "snd (sendWebhookRequest url body (Inr response)) =
      Inl (WebhookThrown
        \<lparr>message = js ''Error '' @ natToString (status response) @ js '': '' @
           (if statusText response = [] then js ''al invocar el webhook''
            else statusText response),
         details = Some pretty\<rparr>)"
    if "JSON_parse (bodyText response) = Some v" "truthy v" "JSON_stringify v = Some pretty"
    for v pretty
    using that assms
    by (simp add: sendWebhookRequest_def parseJsonSafely_def formatJson_def)
  have printable: "JSON_stringify v \<noteq> None" if "JSON_parse (bodyText response) = Some v" for v
    using JSON_parse_stringify[OF that] by auto
  have falsy_case: "snd (sendWebhookRequest url body (Inr response)) =
      Inl (WebhookThrown
        \<lparr>message = js ''Error '' @ natToString (status response) @ js '': '' @
           (if statusText response = [] then js ''al invocar el webhook''
            else statusText response),
         details = Some (bodyText response)\<rparr>)"
    if "JSON_parse (bodyText response) = None \<or>
        (\<exists>v. JSON_parse (bodyText response) = Some v \<and> \<not> truthy v)"
    using that assms
    by (auto simp: sendWebhookRequest_def parseJsonSafely_def)
  have parsed: "JSON_parse (js ''{\"error\":\"boom\"}'') = Some (JObj [(js ''error'', JStr (js ''boom''))])"
    by code_simp
  have printed: "JSON_stringify (JObj [(js ''error'', JStr (js ''boom''))]) =
      Some (js ''{'' @ newline @ js ''  \"error\": \"boom\"'' @ newline @ js ''}'')"
    by code_simp
  have status: "natToString 500 = js ''500''"
    by code_simp
  have prefix: "js ''Error '' @ js ''500'' @ js '': '' @ rest = js ''Error 500: '' @ rest" for rest
    by (simp add: js_def)
  have example: "snd (sendWebhookRequest url body
        (Inr \<lparr>status = 500, statusText = reason, bodyText = js ''{\"error\":\"boom\"}''\<rparr>)) =
      Inl (WebhookThrown
        \<lparr>message = js ''Error 500: '' @
           (if reason = [] then js ''al invocar el webhook'' else reason),
         details = Some (js ''{'' @ newline @ js ''  \"error\": \"boom\"'' @ newline @ js ''}'')\<rparr>)"
    using parsed printed status prefix
    by (simp add: sendWebhookRequest_def parseJsonSafely_def formatJson_def ok_def)
  from truthy_case printable falsy_case example parsed printed show ?thesis
    by blast
qed

theorem sendWebhookRequest_failure_witness:
  "\<not> ok \<lparr>status = 404, statusText = js ''Not Found'', bodyText = js ''[true]''\<rparr> \<and>
   JSON_parse (js ''[true]'') = Some (JArr [JBool True]) \<and> truthy (JArr [JBool True]) \<and>
   JSON_stringify (JArr [JBool True]) = Some (js ''['' @ newline @ js ''  true'' @ newline @ js '']'') \<and>
   snd (sendWebhookRequest (js ''https://n8n/webhook'') []
          (Inr \<lparr>status = 404, statusText = js ''Not Found'', bodyText = js ''[true]''\<rparr>)) =
     Inl (WebhookThrown
       \<lparr>message = js ''Error 404: Not Found'',
        details = Some (js ''['' @ newline @ js ''  true'' @ newline @ js '']'')\<rparr>) \<and>
   \<not> ok \<lparr>status = 502, statusText = [], bodyText = js ''Bad Gateway''\<rparr> \<and>
   JSON_parse (js ''Bad Gateway'') = None \<and>
   snd (sendWebhookRequest (js ''https://n8n/webhook'') []
          (Inr \<lparr>status = 502, statusText = [], bodyText = js ''Bad Gateway''\<rparr>)) =
     Inl (WebhookThrown
       \<lparr>message = js ''Error 502: al invocar el webhook'',
        details = Some (js ''Bad Gateway'')\<rparr>)"
proof -
  have n1: "\<not> ok \<lparr>status = 404, statusText = js ''Not Found'', bodyText = js ''[true]''\<rparr>"
    by (simp add: ok_def)
  have p1: "JSON_parse (js ''[true]'') = Some (JArr [JBool True])"
    by code_simp
  have s1: "JSON_stringify (JArr [JBool True]) =
      Some (js ''['' @ newline @ js ''  true'' @ newline @ js '']'')"
    by code_simp
  have m1: "js ''Error '' @ natToString 404 @ js '': '' @ js ''Not Found'' = js ''Error 404: Not Found''"
    by code_simp
  have n2: "\<not> ok \<lparr>status = 502, statusText = [], bodyText = js ''Bad Gateway''\<rparr>"
    by (simp add: ok_def)
  have p2: "JSON_parse (js ''Bad Gateway'') = None"
    by code_simp
  have m2: "js ''Error '' @ natToString 502 @ js '': '' @ js ''al invocar el webhook'' =
      js ''Error 502: al invocar el webhook''"
    by code_simp
  have e1: "js ''Not Found'' \<noteq> []"
    by (simp add: js_def)
  from sendWebhookRequest_failure[OF n1, of "js ''https://n8n/webhook''" "[]"] p1 s1 m1 e1
  have r1: "snd (sendWebhookRequest (js ''https://n8n/webhook'') []
          (Inr \<lparr>status = 404, statusText = js ''Not Found'', bodyText = js ''[true]''\<rparr>)) =
     Inl (WebhookThrown
       \<lparr>message = js ''Error 404: Not Found'',
        details = Some (js ''['' @ newline @ js ''  true'' @ newline @ js '']'')\<rparr>)"
    by simp
  from sendWebhookRequest_failure[OF n2, of "js ''https://n8n/webhook''" "[]"] p2 m2
  have r2: "snd (sendWebhookRequest (js ''https://n8n/webhook'') []
          (Inr \<lparr>status = 502, statusText = [], bodyText = js ''Bad Gateway''\<rparr>)) =
     Inl (WebhookThrown
       \<lparr>message = js ''Error 502: al invocar el webhook'',
        details = Some (js ''Bad Gateway'')\<rparr>)"
    by simp
  from n1 p1 s1 r1 n2 p2 r2 show ?thesis by simp
qed

text \<open>
  The claim as stated fails on the response text \<open>false\<close> followed by a line feed: the
  text parses as JSON, to \<open>false\<close>, whose pretty print is \<open>false\<close>; the details are
  the response text with its line feed.
\<close>

theorem sendWebhookRequest_failure_counterexample:
  "\<not> ok \<lparr>status = 500, statusText = [], bodyText = js (''false'' @ [CHR 0x0A])\<rparr> \<and>
   JSON_parse (js (''false'' @ [CHR 0x0A])) = Some (JBool False) \<and>
   JSON_stringify (JBool False) = Some (js ''false'') \<and>
   snd (sendWebhookRequest (js ''https://n8n/webhook'') []
          (Inr \<lparr>status = 500, statusText = [], bodyText = js (''false'' @ [CHR 0x0A])\<rparr>)) =
     Inl (WebhookThrown
       \<lparr>message = js ''Error 500: al invocar el webhook'',
        details = Some (js (''false'' @ [CHR 0x0A]))\<rparr>) \<and>
   js (''false'' @ [CHR 0x0A]) \<noteq> js ''false''"
proof -
  have p: "JSON_parse (js (''false'' @ [CHR 0x0A])) = Some (JBool False)"
    by code_simp
  have q: "JSON_stringify (JBool False) = Some (js ''false'')"
    by (simp add: JSON_stringify_def)
  have m: "js ''Error '' @ natToString 500 @ js '': '' @ js ''al invocar el webhook'' =
      js ''Error 500: al invocar el webhook''"
    by code_simp
  have d: "js (''false'' @ [CHR 0x0A]) \<noteq> js ''false''"
    by (simp add: js_def)
  from p q m d show ?thesis
    by (simp add: sendWebhookRequest_def parseJsonSafely_def ok_def)
qed

section \<open>Sample inputs\<close>

text \<open>
  A submission, an exam and a configuration with the three URLs set, for the concrete
  runs below.
\<close>

definition demoFile :: File where
  "demoFile = \<lparr>fileName = js ''entrega.py'', fileType = js ''text/x-python'',
                fileText = Inr (js ''print(1)'')\<rparr>"

definition demoPdf :: File where
  "demoPdf = \<lparr>fileName = js ''parcial.pdf'', fileType = js ''application/pdf'',
               fileText = Inr (js ''%PDF-1.7'')\<rparr>"

definition demoEnv :: Env where
  "demoEnv = \<lparr>rubricWebhookUrl = js ''https://n8n/rubric'',
               gradingWebhookUrl = js ''https://n8n/grade'',
               spreadsheetWebhookUrl = js ''https://n8n/sheet''\<rparr>"

section \<open>Properties of the rubric import\<close>

text \<open>
  C5, as the code has it. For a selected file whose text can be read, the import stores
  the two-space pretty print of the parsed value as the rubric text, sets the provenance
  to \<open>importada\<close> and clears the rubric error whenever the text parses as JSON to
  a truthy value; whenever the text does not parse as JSON, or parses to a falsy value
  (\<open>null\<close>, \<open>false\<close>, zero, the empty string), it stores the validation error
  with the fixed message and changes nothing else. It never sends a request.
\<close>

theorem handleRubricImport_requires_truthy_json:
  assumes "fileText file = Inr text"
  shows "(\<forall>v pretty.
            JSON_parse text = Some v \<and> truthy v \<and> JSON_stringify v = Some pretty \<longrightarrow>
            handleRubricImport (file # others) =
              [SetRubricJson pretty, SetRubricSource (Some Importada), SetRubricError None] \<and>
            run (handleRubricImport (file # others)) s =
              s\<lparr>rubricJson := pretty, rubricSource := Some Importada, rubricError := None\<rparr>) \<and>
         (\<forall>v. JSON_parse text = Some v \<longrightarrow> JSON_stringify v \<noteq> None) \<and>
         (JSON_parse text = None \<or> (\<exists>v. JSON_parse text = Some v \<and> \<not> truthy v) \<longrightarrow>
            handleRubricImport (file # others) =
              [SetRubricError (Some \<lparr>message = msgInvalidJson, details = None\<rparr>)] \<and>
            run (handleRubricImport (file # others)) s =
              s\<lparr>rubricError := Some \<lparr>message = msgInvalidJson, details = None\<rparr>\<rparr>) \<and>
         (\<forall>e\<in>set (handleRubricImport (file # others)). \<not> isFetch e)"
proof -
  have accepted: "handleRubricImport (file # others) =
        [SetRubricJson pretty, SetRubricSource (Some Importada), SetRubricError None] \<and>
      run (handleRubricImport (file # others)) s =
        s\<lparr>rubricJson := pretty, rubricSource := Some Importada, rubricError := None\<rparr>"
    if "JSON_parse text = Some v" "truthy v" "JSON_stringify v = Some pretty" for v pretty
    using that assms
    by (simp add: handleRubricImport_def importAttempt_def parseJsonSafely_def)
  have printable: "JSON_stringify v \<noteq> None" if "JSON_parse text = Some v" for v
    using JSON_parse_stringify[OF that] by auto
  have refused: "handleRubricImport (file # others) =
        [SetRubricError (Some \<lparr>message = msgInvalidJson, details = None\<rparr>)] \<and>
      run (handleRubricImport (file # others)) s =
        s\<lparr>rubricError := Some \<lparr>message = msgInvalidJson, details = None\<rparr>\<rparr>"
    if "JSON_parse text = None \<or> (\<exists>v. JSON_parse text = Some v \<and> \<not> truthy v)"
    using that assms
    by (auto simp: handleRubricImport_def importAttempt_def parseJsonSafely_def)
  have quiet: "\<forall>e\<in>set (handleRubricImport (file # others)). \<not> isFetch e"
    by (auto simp: handleRubricImport_def split: sum.splits)
  from accepted printable refused quiet show ?thesis
    by blast
qed

theorem handleRubricImport_requires_truthy_json_witness:
  "fileText \<lparr>fileName = js ''rubrica.json'', fileType = js ''application/json'',
              fileText = Inr (js ''[true]'')\<rparr> = Inr (js ''[true]'') \<and>
   JSON_parse (js ''[true]'') = Some (JArr [JBool True]) \<and> truthy (JArr [JBool True]) \<and>
   JSON_stringify (JArr [JBool True]) = Some (js ''['' @ newline @ js ''  true'' @ newline @ js '']'') \<and>
   handleRubricImport
     [\<lparr>fileName = js ''rubrica.json'', fileType = js ''application/json'',
       fileText = Inr (js ''[true]'')\<rparr>] =
     [SetRubricJson (js ''['' @ newline @ js ''  true'' @ newline @ js '']''),
      SetRubricSource (Some Importada), SetRubricError None] \<and>
   fileText \<lparr>fileName = js ''notes.txt'', fileType = js ''text/plain'',
              fileText = Inr (js ''not json'')\<rparr> = Inr (js ''not json'') \<and>
   JSON_parse (js ''not json'') = None \<and>
   handleRubricImport
     [\<lparr>fileName = js ''notes.txt'', fileType = js ''text/plain'',
       fileText = Inr (js ''not json'')\<rparr>] =
     [SetRubricError (Some \<lparr>message = msgInvalidJson, details = None\<rparr>)]"
proof -
  have t1: "fileText \<lparr>fileName = js ''rubrica.json'', fileType = js ''application/json'',
              fileText = Inr (js ''[true]'')\<rparr> = Inr (js ''[true]'')"
    by simp
  have p1: "JSON_parse (js ''[true]'') = Some (JArr [JBool True])"
    by code_simp
  have s1: "JSON_stringify (JArr [JBool True]) =
      Some (js ''['' @ newline @ js ''  true'' @ newline @ js '']'')"
    by code_simp
  have t2: "fileText \<lparr>fileName = js ''notes.txt'', fileType = js ''text/plain'',
              fileText = Inr (js ''not json'')\<rparr> = Inr (js ''not json'')"
    by simp
  have p2: "JSON_parse (js ''not json'') = None"
    by code_simp
  from handleRubricImport_requires_truthy_json[OF t1, of "[]"] p1 s1
  have r1: "handleRubricImport
     [\<lparr>fileName = js ''rubrica.json'', fileType = js ''application/json'',
       fileText = Inr (js ''[true]'')\<rparr>] =
     [SetRubricJson (js ''['' @ newline @ js ''  true'' @ newline @ js '']''),
      SetRubricSource (Some Importada), SetRubricError None]"
    by simp
  from handleRubricImport_requires_truthy_json[OF t2, of "[]"] p2
  have r2: "handleRubricImport
     [\<lparr>fileName = js ''notes.txt'', fileType = js ''text/plain'',
       fileText = Inr (js ''not json'')\<rparr>] =
     [SetRubricError (Some \<lparr>message = msgInvalidJson, details = None\<rparr>)]"
    by simp
  from t1 p1 s1 r1 t2 p2 r2 show ?thesis by simp
qed

text \<open>
  The claim as stated fails on a file whose text is \<open>false\<close>: the text parses as
  JSON and has the pretty print \<open>false\<close>, and the import stores the validation error
  instead of the rubric.
\<close>

theorem handleRubricImport_counterexample:
  "JSON_parse (js ''false'') = Some (JBool False) \<and>
   JSON_stringify (JBool False) = Some (js ''false'') \<and>
   handleRubricImport
     [\<lparr>fileName = js ''rubrica.json'', fileType = js ''application/json'',
       fileText = Inr (js ''false'')\<rparr>] =
     [SetRubricError (Some \<lparr>message = msgInvalidJson, details = None\<rparr>)] \<and>
   handleRubricImport
     [\<lparr>fileName = js ''rubrica.json'', fileType = js ''application/json'',
       fileText = Inr (js ''false'')\<rparr>] \<noteq>
     [SetRubricJson (js ''false''), SetRubricSource (Some Importada), SetRubricError None]"
proof -
  have p: "JSON_parse (js ''false'') = Some (JBool False)"
    by code_simp
  have q: "JSON_stringify (JBool False) = Some (js ''false'')"
    by (simp add: JSON_stringify_def)
  from p q show ?thesis
    by (simp add: handleRubricImport_def importAttempt_def parseJsonSafely_def)
qed

section \<open>Properties of the three actions\<close>

text \<open>
  \<open>setError a\<close> is the setter of the error of the action \<open>a\<close>, and
  \<open>missingInput a env s\<close> says that an input the action requires is missing: the
  file, the rubric, one of the three required text fields, or the URL of the webhook.
\<close>

fun setError :: "action \<Rightarrow> WebhookError option \<Rightarrow> effect" where
  "setError GenerateRubric = SetRubricError"
| "setError GradeSubmission = SetGradingError"
| "setError UploadToSpreadsheet = SetSpreadsheetError"

fun missingInput :: "action \<Rightarrow> Env \<Rightarrow> AppState \<Rightarrow> bool" where
  "missingInput GenerateRubric env s \<longleftrightarrow> rubricPdf s = None \<or> rubricWebhookUrl env = []"
| "missingInput GradeSubmission env s \<longleftrightarrow>
     \<not> hasRubric s \<or> submissionFile s = None \<or> gradingWebhookUrl env = []"
| "missingInput UploadToSpreadsheet env s \<longleftrightarrow>
     spreadsheetWebhookUrl env = [] \<or> trim (spreadsheetUrl s) = [] \<or>
     trim (spreadsheetSheetName s) = [] \<or> trim (spreadsheetStudentName s) = []"

lemma trim_whitespace: "\<forall>c\<in>set s. isWhiteSpace c \<Longrightarrow> trim s = []"
  by (simp add: trim_def dropWhile_eq_Nil_conv[THEN iffD2])

lemma missingInput_fails_fast:
  assumes "missingInput a env s"
  shows "\<exists>m. handler a env s reply = [setError a (Some \<lparr>message = m, details = None\<rparr>)]"
proof (cases a)
  case GenerateRubric
  with assms show ?thesis
    by (auto simp: handleGenerateRubric_def validationError_def split: option.splits)
next
  case GradeSubmission
  with assms show ?thesis
    by (auto simp: handleGradeSubmission_def validationError_def split: option.splits)
next
  case UploadToSpreadsheet
  with assms show ?thesis
    by (auto simp: handleUploadToSpreadsheet_def validationError_def)
qed

lemma complete_input_sends:
  assumes "\<not> missingInput a env s"
  shows "\<exists>e\<in>set (handler a env s reply). isFetch e"
proof (cases a)
  case GenerateRubric
  with assms show ?thesis
    by (auto simp: handleGenerateRubric_def sendWebhookRequest_def split: sum.splits)
next
  case GradeSubmission
  with assms show ?thesis
    by (auto simp: handleGradeSubmission_def sendWebhookRequest_def split: sum.splits)
next
  case UploadToSpreadsheet
  with assms show ?thesis
    by (auto simp: handleUploadToSpreadsheet_def sendWebhookRequest_def split: sum.splits)
qed

text \<open>
  C6. In every state whose rubric text is empty or holds white space only there is no
  rubric, and without a rubric grading, also with a submission selected, stores the
  validation error \<open>Necesitas generar o importar una r\<dots>brica JSON antes de
  corregir.\<close> and sends no request. More generally, each of the three actions that
  misses a required input (the file, the rubric, one of the three required text fields,
  the URL of its webhook) does nothing but store the validation error of the first
  missing input in its own error: it sends no request. An action that misses no input
  sends its request.
\<close>

theorem validation_fails_fast:
  "((\<forall>c\<in>set (rubricJson s). isWhiteSpace c) \<longrightarrow> \<not> hasRubric s) \<and>
   (\<not> hasRubric s \<longrightarrow>
      handleGradeSubmission env s reply =
        [SetGradingError (Some \<lparr>message = msgNeedRubric, details = None\<rparr>)] \<and>
      run (handleGradeSubmission env s reply) s =
        s\<lparr>gradingError := Some \<lparr>message = msgNeedRubric, details = None\<rparr>\<rparr>) \<and>
   (hasRubric s \<and> submissionFile s = None \<longrightarrow>
      handleGradeSubmission env s reply =
        [SetGradingError (Some \<lparr>message = msgSelectSubmission, details = None\<rparr>)]) \<and>
   (hasRubric s \<and> submissionFile s \<noteq> None \<and> gradingWebhookUrl env = [] \<longrightarrow>
      handleGradeSubmission env s reply =
        [SetGradingError (Some \<lparr>message = msgGradingUrl, details = None\<rparr>)]) \<and>
   (rubricPdf s = None \<longrightarrow>
      handleGenerateRubric env s reply =
        [SetRubricError (Some \<lparr>message = msgSelectPdf, details = None\<rparr>)]) \<and>
   (rubricPdf s \<noteq> None \<and> rubricWebhookUrl env = [] \<longrightarrow>
      handleGenerateRubric env s reply =
        [SetRubricError (Some \<lparr>message = msgRubricUrl, details = None\<rparr>)]) \<and>
   (spreadsheetWebhookUrl env = [] \<longrightarrow>
      handleUploadToSpreadsheet env s reply =
        [SetSpreadsheetError (Some \<lparr>message = msgSpreadsheetUrl, details = None\<rparr>)]) \<and>
   (spreadsheetWebhookUrl env \<noteq> [] \<and>
    (trim (spreadsheetUrl s) = [] \<or> trim (spreadsheetSheetName s) = [] \<or>
     trim (spreadsheetStudentName s) = []) \<longrightarrow>
      handleUploadToSpreadsheet env s reply =
        [SetSpreadsheetError (Some \<lparr>message = msgSpreadsheetFields, details = None\<rparr>)]) \<and>
   (missingInput a env s \<longrightarrow>
      (\<exists>m. handler a env s reply = [setError a (Some \<lparr>message = m, details = None\<rparr>)]) \<and>
      (\<forall>e\<in>set (handler a env s reply). \<not> isFetch e)) \<and>
   (\<not> missingInput a env s \<longrightarrow> (\<exists>e\<in>set (handler a env s reply). isFetch e))"
proof -
  have absent: "\<not> hasRubric s" if "\<forall>c\<in>set (rubricJson s). isWhiteSpace c"
    using that by (simp add: hasRubric_def trim_whitespace)
  have grade1: "handleGradeSubmission env s reply =
        [SetGradingError (Some \<lparr>message = msgNeedRubric, details = None\<rparr>)] \<and>
      run (handleGradeSubmission env s reply) s =
        s\<lparr>gradingError := Some \<lparr>message = msgNeedRubric, details = None\<rparr>\<rparr>"
    if "\<not> hasRubric s"
    using that by (simp add: handleGradeSubmission_def validationError_def)
  have grade2: "handleGradeSubmission env s reply =
        [SetGradingError (Some \<lparr>message = msgSelectSubmission, details = None\<rparr>)]"
    if "hasRubric s \<and> submissionFile s = None"
    using that by (simp add: handleGradeSubmission_def validationError_def)
  have grade3: "handleGradeSubmission env s reply =
        [SetGradingError (Some \<lparr>message = msgGradingUrl, details = None\<rparr>)]"
    if "hasRubric s \<and> submissionFile s \<noteq> None \<and> gradingWebhookUrl env = []"
    using that by (auto simp: handleGradeSubmission_def validationError_def)
  have generate1: "handleGenerateRubric env s reply =
        [SetRubricError (Some \<lparr>message = msgSelectPdf, details = None\<rparr>)]"
    if "rubricPdf s = None"
    using that by (simp add: handleGenerateRubric_def validationError_def)
  have generate2: "handleGenerateRubric env s reply =
        [SetRubricError (Some \<lparr>message = msgRubricUrl, details = None\<rparr>)]"
    if "rubricPdf s \<noteq> None \<and> rubricWebhookUrl env = []"
    using that by (auto simp: handleGenerateRubric_def validationError_def)
  have upload1: "handleUploadToSpreadsheet env s reply =
        [SetSpreadsheetError (Some \<lparr>message = msgSpreadsheetUrl, details = None\<rparr>)]"
    if "spreadsheetWebhookUrl env = []"
    using that by (simp add: handleUploadToSpreadsheet_def validationError_def)
  have upload2: "handleUploadToSpreadsheet env s reply =
        [SetSpreadsheetError (Some \<lparr>message = msgSpreadsheetFields, details = None\<rparr>)]"
    if "spreadsheetWebhookUrl env \<noteq> [] \<and>
        (trim (spreadsheetUrl s) = [] \<or> trim (spreadsheetSheetName s) = [] \<or>
         trim (spreadsheetStudentName s) = [])"
    using that by (auto simp: handleUploadToSpreadsheet_def validationError_def)
  have missing: "(\<exists>m. handler a env s reply = [setError a (Some \<lparr>message = m, details = None\<rparr>)]) \<and>
      (\<forall>e\<in>set (handler a env s reply). \<not> isFetch e)"
    if "missingInput a env s"
  proof -
    from missingInput_fails_fast[OF that, of reply] obtain m where
      m: "handler a env s reply = [setError a (Some \<lparr>message = m, details = None\<rparr>)]"
      by blast
    then have "\<forall>e\<in>set (handler a env s reply). \<not> isFetch e"
      by (cases a) simp_all
    with m show ?thesis by blast
  qed
  have complete: "\<exists>e\<in>set (handler a env s reply). isFetch e" if "\<not> missingInput a env s"
    using complete_input_sends[OF that] .
  from absent grade1 grade2 grade3 generate1 generate2 upload1 upload2 missing complete
  show ?thesis
    by blast
qed

theorem validation_fails_fast_witness:
  "rubricJson (initialState\<lparr>rubricJson := [0x20, 0x0A], submissionFile := Some demoFile\<rparr>) =
     [0x20, 0x0A] \<and>
   isWhiteSpace 0x20 \<and> isWhiteSpace 0x0A \<and>
   \<not> hasRubric (initialState\<lparr>rubricJson := [0x20, 0x0A], submissionFile := Some demoFile\<rparr>) \<and>
   submissionFile (initialState\<lparr>rubricJson := [0x20, 0x0A], submissionFile := Some demoFile\<rparr>) =
     Some demoFile \<and>
   handleGradeSubmission demoEnv
     (initialState\<lparr>rubricJson := [0x20, 0x0A], submissionFile := Some demoFile\<rparr>)
     (Inl (ErrorInstance (js ''Failed to fetch''))) =
     [SetGradingError (Some \<lparr>message = msgNeedRubric, details = None\<rparr>)] \<and>
   hasRubric (initialState\<lparr>rubricJson := js ''{}''\<rparr>) \<and>
   submissionFile (initialState\<lparr>rubricJson := js ''{}''\<rparr>) = None \<and>
   handleGradeSubmission demoEnv (initialState\<lparr>rubricJson := js ''{}''\<rparr>)
     (Inl (ErrorInstance (js ''Failed to fetch''))) =
     [SetGradingError (Some \<lparr>message = msgSelectSubmission, details = None\<rparr>)] \<and>
   missingInput GradeSubmission demoEnv (initialState\<lparr>rubricJson := js ''{}''\<rparr>) \<and>
   list_all (\<lambda>e. \<not> isFetch e)
     (handler GradeSubmission demoEnv (initialState\<lparr>rubricJson := js ''{}''\<rparr>)
        (Inl (ErrorInstance (js ''Failed to fetch'')))) \<and>
   rubricPdf (initialState\<lparr>rubricPdf := Some demoPdf\<rparr>) \<noteq> None \<and>
   rubricWebhookUrl (demoEnv\<lparr>rubricWebhookUrl := []\<rparr>) = [] \<and>
   handleGenerateRubric (demoEnv\<lparr>rubricWebhookUrl := []\<rparr>)
     (initialState\<lparr>rubricPdf := Some demoPdf\<rparr>)
     (Inl (ErrorInstance (js ''Failed to fetch''))) =
     [SetRubricError (Some \<lparr>message = msgRubricUrl, details = None\<rparr>)] \<and>
   \<not> missingInput GenerateRubric demoEnv (initialState\<lparr>rubricPdf := Some demoPdf\<rparr>) \<and>
   list_ex isFetch
     (handler GenerateRubric demoEnv (initialState\<lparr>rubricPdf := Some demoPdf\<rparr>)
        (Inl (ErrorInstance (js ''Failed to fetch''))))"
proof -
  let ?reply = "Inl (ErrorInstance (js ''Failed to fetch'')) :: thrown + Response"
  let ?blank = "initialState\<lparr>rubricJson := [0x20, 0x0A], submissionFile := Some demoFile\<rparr>"
  let ?rubric = "initialState\<lparr>rubricJson := js ''{}''\<rparr>"
  let ?exam = "initialState\<lparr>rubricPdf := Some demoPdf\<rparr>"
  have j: "rubricJson ?blank = [0x20, 0x0A]"
    by simp
  have i: "isWhiteSpace 0x20" "isWhiteSpace 0x0A"
    by (simp_all add: isWhiteSpace_def)
  from j i have w: "\<forall>c\<in>set (rubricJson ?blank). isWhiteSpace c"
    by simp
  have f: "submissionFile ?blank = Some demoFile"
    by simp
  note blank = validation_fails_fast[of ?blank demoEnv ?reply GradeSubmission]
  from blank w have n: "\<not> hasRubric ?blank"
    by blast
  from blank n have b: "handleGradeSubmission demoEnv ?blank ?reply =
      [SetGradingError (Some \<lparr>message = msgNeedRubric, details = None\<rparr>)]"
    by blast
  have h: "hasRubric ?rubric"
    by (simp add: hasRubric_def trim_def js_def isWhiteSpace_def)
  have g: "submissionFile ?rubric = None"
    by (simp add: initialState_def)
  note rubric = validation_fails_fast[of ?rubric demoEnv ?reply GradeSubmission]
  from rubric h g have c: "handleGradeSubmission demoEnv ?rubric ?reply =
      [SetGradingError (Some \<lparr>message = msgSelectSubmission, details = None\<rparr>)]"
    by blast
  from g have m: "missingInput GradeSubmission demoEnv ?rubric"
    by simp
  from rubric m have "\<forall>e\<in>set (handler GradeSubmission demoEnv ?rubric ?reply). \<not> isFetch e"
    by blast
  then have q: "list_all (\<lambda>e. \<not> isFetch e) (handler GradeSubmission demoEnv ?rubric ?reply)"
    by (simp only: list_all_iff)
  have p: "rubricPdf ?exam \<noteq> None"
    by simp
  have u: "rubricWebhookUrl (demoEnv\<lparr>rubricWebhookUrl := []\<rparr>) = []"
    by simp
  from validation_fails_fast[of ?exam "demoEnv\<lparr>rubricWebhookUrl := []\<rparr>" ?reply GenerateRubric] p u
  have d: "handleGenerateRubric (demoEnv\<lparr>rubricWebhookUrl := []\<rparr>) ?exam ?reply =
      [SetRubricError (Some \<lparr>message = msgRubricUrl, details = None\<rparr>)]"
    by blast
  have k: "\<not> missingInput GenerateRubric demoEnv ?exam"
    by (simp add: demoEnv_def js_def)
  from validation_fails_fast[of ?exam demoEnv ?reply GenerateRubric] k
  have "\<exists>e\<in>set (handler GenerateRubric demoEnv ?exam ?reply). isFetch e"
    by blast
  then have x: "list_ex isFetch (handler GenerateRubric demoEnv ?exam ?reply)"
    by (simp only: list_ex_iff)
  from j i n f b h g c m q p u d k x show ?thesis
    by blast
qed

text \<open>
  C7. In every state with a PDF selected and the rubric URL configured, when the webhook
  answers with status 200 and the text \<^verbatim>\<open>{"rubric_id":"r1"}\<close>, generating the rubric
  raises the busy flag, clears the rubric error, sends the PDF, stores the pretty print
  of that object as the rubric text, sets the provenance to \<open>generada\<close> and lowers the
  busy flag: the flag goes from true back to false and no rubric error is left.
\<close>

theorem generate_rubric_success:
  assumes "rubricPdf s = Some pdf" and "rubricWebhookUrl env \<noteq> []"
  shows "handleGenerateRubric env s
           (Inr \<lparr>status = 200, statusText = reason, bodyText = js ''{\"rubric_id\":\"r1\"}''\<rparr>) =
           [SetIsGeneratingRubric True, SetRubricError None,
            Fetch (rubricWebhookUrl env) [(js ''pdf'', FormFile pdf)],
            SetRubricJson (js ''{'' @ newline @ js ''  \"rubric_id\": \"r1\"'' @ newline @ js ''}''),
            SetRubricSource (Some Generada), SetIsGeneratingRubric False] \<and>
         JSON_parse (js ''{\"rubric_id\":\"r1\"}'') = Some (JObj [(js ''rubric_id'', JStr (js ''r1''))]) \<and>
         JSON_stringify (JObj [(js ''rubric_id'', JStr (js ''r1''))]) =
           Some (js ''{'' @ newline @ js ''  \"rubric_id\": \"r1\"'' @ newline @ js ''}'') \<and>
         run (handleGenerateRubric env s
           (Inr \<lparr>status = 200, statusText = reason, bodyText = js ''{\"rubric_id\":\"r1\"}''\<rparr>)) s =
           s\<lparr>rubricJson := js ''{'' @ newline @ js ''  \"rubric_id\": \"r1\"'' @ newline @ js ''}'',
             rubricSource := Some Generada, rubricError := None, isGeneratingRubric := False\<rparr> \<and>
         map isGeneratingRubric (trace (handleGenerateRubric env s
           (Inr \<lparr>status = 200, statusText = reason, bodyText = js ''{\"rubric_id\":\"r1\"}''\<rparr>)) s) =
           [isGeneratingRubric s, True, True, True, True, True, False]"
proof -
  have parsed: "JSON_parse (js ''{\"rubric_id\":\"r1\"}'') = Some (JObj [(js ''rubric_id'', JStr (js ''r1''))])"
    by code_simp
  have printed: "JSON_stringify (JObj [(js ''rubric_id'', JStr (js ''r1''))]) =
      Some (js ''{'' @ newline @ js ''  \"rubric_id\": \"r1\"'' @ newline @ js ''}'')"
    by code_simp
  have effects: "handleGenerateRubric env s
      (Inr \<lparr>status = 200, statusText = reason, bodyText = js ''{\"rubric_id\":\"r1\"}''\<rparr>) =
      [SetIsGeneratingRubric True, SetRubricError None,
       Fetch (rubricWebhookUrl env) [(js ''pdf'', FormFile pdf)],
       SetRubricJson (js ''{'' @ newline @ js ''  \"rubric_id\": \"r1\"'' @ newline @ js ''}''),
       SetRubricSource (Some Generada), SetIsGeneratingRubric False]"
    using assms parsed printed
    by (simp add: handleGenerateRubric_def sendWebhookRequest_def parseJsonSafely_def
        formatJson_def ok_def)
  show ?thesis
    unfolding effects using parsed printed by simp
qed

theorem generate_rubric_success_witness:
  "rubricPdf (initialState\<lparr>rubricPdf := Some demoPdf, rubricError := Some \<lparr>message = msgSelectPdf, details = None\<rparr>\<rparr>) = Some demoPdf \<and>
   rubricWebhookUrl demoEnv \<noteq> [] \<and>
   run (handleGenerateRubric demoEnv
          (initialState\<lparr>rubricPdf := Some demoPdf, rubricError := Some \<lparr>message = msgSelectPdf, details = None\<rparr>\<rparr>)
          (Inr \<lparr>status = 200, statusText = js ''OK'', bodyText = js ''{\"rubric_id\":\"r1\"}''\<rparr>))
     (initialState\<lparr>rubricPdf := Some demoPdf, rubricError := Some \<lparr>message = msgSelectPdf, details = None\<rparr>\<rparr>) =
     initialState\<lparr>rubricPdf := Some demoPdf,
       rubricJson := js ''{'' @ newline @ js ''  \"rubric_id\": \"r1\"'' @ newline @ js ''}'',
       rubricSource := Some Generada\<rparr>"
proof -
  have f: "rubricPdf (initialState\<lparr>rubricPdf := Some demoPdf, rubricError := Some \<lparr>message = msgSelectPdf, details = None\<rparr>\<rparr>) = Some demoPdf"
    by simp
  have u: "rubricWebhookUrl demoEnv \<noteq> []"
    by (simp add: demoEnv_def js_def)
  from generate_rubric_success[OF f u, of "js ''OK''"] f u show ?thesis
    by (simp add: initialState_def)
qed

text \<open>
  \<open>owner e\<close> is the action whose state the effect \<open>e\<close> writes, and
  \<open>slot a s\<close> is the state of the action \<open>a\<close>: its busy flag, its result (for the
  generation, the rubric text and its provenance) and its error.
\<close>

fun owner :: "effect \<Rightarrow> action option" where
  "owner (SetRubricJson v) = Some GenerateRubric"
| "owner (SetRubricSource v) = Some GenerateRubric"
| "owner (SetRubricError v) = Some GenerateRubric"
| "owner (SetIsGeneratingRubric v) = Some GenerateRubric"
| "owner (SetIsGrading v) = Some GradeSubmission"
| "owner (SetGradingResponse v) = Some GradeSubmission"
| "owner (SetGradingError v) = Some GradeSubmission"
| "owner (SetIsUploadingSpreadsheet v) = Some UploadToSpreadsheet"
| "owner (SetSpreadsheetResponse v) = Some UploadToSpreadsheet"
| "owner (SetSpreadsheetError v) = Some UploadToSpreadsheet"
| "owner (Fetch url body) = None"

fun slot :: "action \<Rightarrow> AppState \<Rightarrow> bool \<times> jsvalue \<times> RubricSource option \<times> WebhookError option" where
  "slot GenerateRubric s = (isGeneratingRubric s, JStr (rubricJson s), rubricSource s, rubricError s)"
| "slot GradeSubmission s = (isGrading s, gradingResponse s, None, gradingError s)"
| "slot UploadToSpreadsheet s =
     (isUploadingSpreadsheet s, spreadsheetResponse s, None, spreadsheetError s)"

lemma handler_owner:
  "e \<in> set (handler a env s reply) \<Longrightarrow> owner e = Some a \<or> owner e = None"
proof (cases a)
  case GenerateRubric
  assume "e \<in> set (handler a env s reply)"
  with GenerateRubric show ?thesis
    by (auto simp: handleGenerateRubric_def sendWebhookRequest_def
        split: option.splits if_splits sum.splits prod.splits)
next
  case GradeSubmission
  assume "e \<in> set (handler a env s reply)"
  with GradeSubmission show ?thesis
    by (auto simp: handleGradeSubmission_def sendWebhookRequest_def
        split: option.splits if_splits sum.splits prod.splits)
next
  case UploadToSpreadsheet
  assume "e \<in> set (handler a env s reply)"
  with UploadToSpreadsheet show ?thesis
    by (auto simp: handleUploadToSpreadsheet_def sendWebhookRequest_def
        split: option.splits if_splits sum.splits prod.splits)
qed

lemma applyEffect_frame: "owner e \<noteq> Some b \<Longrightarrow> slot b (applyEffect e t) = slot b t"
  by (cases e; cases b) simp_all

lemma trace_frame:
  "\<forall>e\<in>set es. owner e \<noteq> Some b \<Longrightarrow> \<forall>u\<in>set (trace es t). slot b u = slot b t"
  by (induction es arbitrary: t) (auto simp: applyEffect_frame)

lemma run_frame:
  "\<forall>e\<in>set es. owner e \<noteq> Some b \<Longrightarrow> slot b (run es t) = slot b t"
  by (induction es arbitrary: t) (auto simp: applyEffect_frame)

text \<open>
  C9. Whatever an action does, with success or with an error, and whatever the state it
  is applied to, the busy flag, the result and the error of each other action stay as
  they are, at every step and at the end; no action sets the error of another one.
\<close>

theorem actions_do_not_interfere:
  assumes "a \<noteq> b"
  shows "(\<forall>u\<in>set (trace (handler a env s reply) t). slot b u = slot b t) \<and>
         slot b (run (handler a env s reply) t) = slot b t \<and>
         (\<forall>e\<in>set (handler a env s reply). \<forall>err. e \<noteq> setError b err)"
proof -
  have foreign: "\<forall>e\<in>set (handler a env s reply). owner e \<noteq> Some b"
    using handler_owner[of _ a env s reply] assms by fastforce
  have "e \<noteq> setError b err" if "e \<in> set (handler a env s reply)" for e err
  proof
    assume "e = setError b err"
    then have "owner e = Some b" by (cases b) simp_all
    with foreign that show False by blast
  qed
  with trace_frame[OF foreign, of t] run_frame[OF foreign, of t] show ?thesis
    by blast
qed

theorem actions_do_not_interfere_witness:
  "GradeSubmission \<noteq> GenerateRubric \<and>
   handler GradeSubmission demoEnv
     (initialState\<lparr>rubricJson := js ''{}'', submissionFile := Some demoFile\<rparr>)
     (Inr \<lparr>status = 500, statusText = [], bodyText = js ''boom''\<rparr>) =
     [SetIsGrading True, SetGradingError None, SetGradingResponse JNull,
      Fetch (js ''https://n8n/grade'')
        [(js ''rubric'', FormBlob (js ''{}'') (js ''application/json'') (js ''rubrica.json'')),
         (js ''submission'', FormFile demoFile)],
      SetGradingError
        (Some \<lparr>message = js ''Error 500: al invocar el webhook'', details = Some (js ''boom'')\<rparr>),
      SetIsGrading False] \<and>
   slot GenerateRubric
     (run (handler GradeSubmission demoEnv
             (initialState\<lparr>rubricJson := js ''{}'', submissionFile := Some demoFile\<rparr>)
             (Inr \<lparr>status = 500, statusText = [], bodyText = js ''boom''\<rparr>))
        (initialState\<lparr>rubricJson := js ''{}'', submissionFile := Some demoFile\<rparr>)) =
     (False, JStr (js ''{}''), None, None)"
proof -
  have d: "GradeSubmission \<noteq> GenerateRubric"
    by simp
  have r: "hasRubric (initialState\<lparr>rubricJson := js ''{}'', submissionFile := Some demoFile\<rparr>)"
    by (simp add: hasRubric_def trim_def js_def isWhiteSpace_def)
  have p: "JSON_parse (js ''boom'') = None"
    by code_simp
  have m: "js ''Error '' @ natToString 500 @ js '': '' @ js ''al invocar el webhook'' =
      js ''Error 500: al invocar el webhook''"
    by code_simp
  have u: "gradingWebhookUrl demoEnv = js ''https://n8n/grade''" "js ''https://n8n/grade'' \<noteq> []"
    by (simp_all add: demoEnv_def js_def)
  have h: "handler GradeSubmission demoEnv
     (initialState\<lparr>rubricJson := js ''{}'', submissionFile := Some demoFile\<rparr>)
     (Inr \<lparr>status = 500, statusText = [], bodyText = js ''boom''\<rparr>) =
     [SetIsGrading True, SetGradingError None, SetGradingResponse JNull,
      Fetch (js ''https://n8n/grade'')
        [(js ''rubric'', FormBlob (js ''{}'') (js ''application/json'') (js ''rubrica.json'')),
         (js ''submission'', FormFile demoFile)],
      SetGradingError
        (Some \<lparr>message = js ''Error 500: al invocar el webhook'', details = Some (js ''boom'')\<rparr>),
      SetIsGrading False]"
    using r p m u
    by (simp add: handleGradeSubmission_def sendWebhookRequest_def parseJsonSafely_def ok_def)
  from actions_do_not_interfere[OF d, of demoEnv
      "initialState\<lparr>rubricJson := js ''{}'', submissionFile := Some demoFile\<rparr>"
      "Inr \<lparr>status = 500, statusText = [], bodyText = js ''boom''\<rparr>"
      "initialState\<lparr>rubricJson := js ''{}'', submissionFile := Some demoFile\<rparr>"]
  have "slot GenerateRubric
     (run (handler GradeSubmission demoEnv
             (initialState\<lparr>rubricJson := js ''{}'', submissionFile := Some demoFile\<rparr>)
             (Inr \<lparr>status = 500, statusText = [], bodyText = js ''boom''\<rparr>))
        (initialState\<lparr>rubricJson := js ''{}'', submissionFile := Some demoFile\<rparr>)) =
     slot GenerateRubric (initialState\<lparr>rubricJson := js ''{}'', submissionFile := Some demoFile\<rparr>)"
    by blast
  then have s: "slot GenerateRubric
     (run (handler GradeSubmission demoEnv
             (initialState\<lparr>rubricJson := js ''{}'', submissionFile := Some demoFile\<rparr>)
             (Inr \<lparr>status = 500, statusText = [], bodyText = js ''boom''\<rparr>))
        (initialState\<lparr>rubricJson := js ''{}'', submissionFile := Some demoFile\<rparr>)) =
     (False, JStr (js ''{}''), None, None)"
    by (simp add: initialState_def)
  from d h s show ?thesis by blast
qed

text \<open>
  The busy flag at the points where the state can be seen: before the run, from the
  request on (the setters called before the handler first waits are applied together,
  when it waits for the response), and at the end.
\<close>

lemma generate_busy:
  assumes "\<not> isGeneratingRubric s" and "handleGenerateRubric env s reply = p @ q"
    and "p = [] \<or> (\<exists>e\<in>set p. isFetch e) \<or> q = []"
  shows "isGeneratingRubric (run p s) \<longleftrightarrow> (\<exists>e\<in>set p. isFetch e) \<and> q \<noteq> []"
  using assms
  by (auto simp: handleGenerateRubric_def sendWebhookRequest_def Cons_eq_append_conv
      split: option.splits sum.splits if_splits)

lemma grade_busy:
  assumes "\<not> isGrading s" and "handleGradeSubmission env s reply = p @ q"
    and "p = [] \<or> (\<exists>e\<in>set p. isFetch e) \<or> q = []"
  shows "isGrading (run p s) \<longleftrightarrow> (\<exists>e\<in>set p. isFetch e) \<and> q \<noteq> []"
  using assms
  by (auto simp: handleGradeSubmission_def sendWebhookRequest_def Cons_eq_append_conv
      split: option.splits sum.splits if_splits)

lemma upload_busy:
  assumes "\<not> isUploadingSpreadsheet s" and "handleUploadToSpreadsheet env s reply = p @ q"
    and "p = [] \<or> (\<exists>e\<in>set p. isFetch e) \<or> q = []"
  shows "isUploadingSpreadsheet (run p s) \<longleftrightarrow> (\<exists>e\<in>set p. isFetch e) \<and> q \<noteq> []"
  using assms
  by (auto simp: handleUploadToSpreadsheet_def sendWebhookRequest_def Cons_eq_append_conv
      split: option.splits sum.splits if_splits)

text \<open>
  C10. For every run of an action that its button has started (the button is disabled
  while the busy flag is set), the busy flag is false at the end, whether the run stops
  at a failed validation, settles with a result or settles with an error of the webhook
  or the network; and at each of the points above the flag is true exactly when the
  request has been sent and the run has not ended.
\<close>

theorem busy_flag_only_while_in_flight:
  assumes "click a env s reply = Some effs"
  shows "\<not> busy a (run effs s) \<and>
         (\<forall>p q. effs = p @ q \<and> (p = [] \<or> (\<exists>e\<in>set p. isFetch e) \<or> q = []) \<longrightarrow>
            (busy a (run p s) \<longleftrightarrow> (\<exists>e\<in>set p. isFetch e) \<and> q \<noteq> []))"
proof -
  from assms have idle: "\<not> busy a s" and effs: "effs = handler a env s reply"
    by (auto simp: click_def split: if_splits)
  have points: "busy a (run p s) \<longleftrightarrow> (\<exists>e\<in>set p. isFetch e) \<and> q \<noteq> []"
    if "effs = p @ q" and "p = [] \<or> (\<exists>e\<in>set p. isFetch e) \<or> q = []" for p q
  proof (cases a)
    case GenerateRubric
    with idle effs that generate_busy[of s env reply p q] show ?thesis by simp
  next
    case GradeSubmission
    with idle effs that grade_busy[of s env reply p q] show ?thesis by simp
  next
    case UploadToSpreadsheet
    with idle effs that upload_busy[of s env reply p q] show ?thesis by simp
  qed
  from points[of effs "[]"] have "\<not> busy a (run effs s)" by simp
  with points show ?thesis by blast
qed

theorem busy_flag_only_while_in_flight_witness:
  "click UploadToSpreadsheet demoEnv
     (initialState\<lparr>spreadsheetUrl := js ''https://docs/x'', spreadsheetSheetName := js ''Notas'',
        spreadsheetStudentName := js ''Ana''\<rparr>)
     (Inl (ErrorInstance (js ''Failed to fetch''))) =
     Some ([SetIsUploadingSpreadsheet True, SetSpreadsheetError None, SetSpreadsheetResponse JNull,
       Fetch (js ''https://n8n/sheet'')
         [(js ''spreadsheet_url'', FormText (js ''https://docs/x'')),
          (js ''sheet_name'', FormText (js ''Notas'')),
          (js ''alumno'', FormText (js ''Ana'')),
          (js ''nota'', FormText []),
          (js ''resumen_por_criterios'', FormText []),
          (js ''fortalezas'', FormText []),
          (js ''recomendaciones'', FormText [])]] @
      [SetSpreadsheetError (Some \<lparr>message = js ''Failed to fetch'', details = None\<rparr>),
       SetIsUploadingSpreadsheet False]) \<and>
   \<not> busy UploadToSpreadsheet
     (run ([SetIsUploadingSpreadsheet True, SetSpreadsheetError None, SetSpreadsheetResponse JNull,
       Fetch (js ''https://n8n/sheet'')
         [(js ''spreadsheet_url'', FormText (js ''https://docs/x'')),
          (js ''sheet_name'', FormText (js ''Notas'')),
          (js ''alumno'', FormText (js ''Ana'')),
          (js ''nota'', FormText []),
          (js ''resumen_por_criterios'', FormText []),
          (js ''fortalezas'', FormText []),
          (js ''recomendaciones'', FormText [])]] @
      [SetSpreadsheetError (Some \<lparr>message = js ''Failed to fetch'', details = None\<rparr>),
       SetIsUploadingSpreadsheet False])
       (initialState\<lparr>spreadsheetUrl := js ''https://docs/x'', spreadsheetSheetName := js ''Notas'',
          spreadsheetStudentName := js ''Ana''\<rparr>)) \<and>
   busy UploadToSpreadsheet
     (run [SetIsUploadingSpreadsheet True, SetSpreadsheetError None, SetSpreadsheetResponse JNull,
       Fetch (js ''https://n8n/sheet'')
         [(js ''spreadsheet_url'', FormText (js ''https://docs/x'')),
          (js ''sheet_name'', FormText (js ''Notas'')),
          (js ''alumno'', FormText (js ''Ana'')),
          (js ''nota'', FormText []),
          (js ''resumen_por_criterios'', FormText []),
          (js ''fortalezas'', FormText []),
          (js ''recomendaciones'', FormText [])]]
       (initialState\<lparr>spreadsheetUrl := js ''https://docs/x'', spreadsheetSheetName := js ''Notas'',
          spreadsheetStudentName := js ''Ana''\<rparr>))"
proof -
  have t: "trim (js ''https://docs/x'') \<noteq> []" "trim (js ''Notas'') \<noteq> []" "trim (js ''Ana'') \<noteq> []"
    by (simp_all add: trim_def js_def isWhiteSpace_def)
  have u: "spreadsheetWebhookUrl demoEnv = js ''https://n8n/sheet''" "js ''https://n8n/sheet'' \<noteq> []"
    by (simp_all add: demoEnv_def js_def)
  have c: "click UploadToSpreadsheet demoEnv
     (initialState\<lparr>spreadsheetUrl := js ''https://docs/x'', spreadsheetSheetName := js ''Notas'',
        spreadsheetStudentName := js ''Ana''\<rparr>)
     (Inl (ErrorInstance (js ''Failed to fetch''))) =
     Some ([SetIsUploadingSpreadsheet True, SetSpreadsheetError None, SetSpreadsheetResponse JNull,
       Fetch (js ''https://n8n/sheet'')
         [(js ''spreadsheet_url'', FormText (js ''https://docs/x'')),
          (js ''sheet_name'', FormText (js ''Notas'')),
          (js ''alumno'', FormText (js ''Ana'')),
          (js ''nota'', FormText []),
          (js ''resumen_por_criterios'', FormText []),
          (js ''fortalezas'', FormText []),
          (js ''recomendaciones'', FormText [])]] @
      [SetSpreadsheetError (Some \<lparr>message = js ''Failed to fetch'', details = None\<rparr>),
       SetIsUploadingSpreadsheet False])"
    using t u
    by (simp add: click_def handleUploadToSpreadsheet_def sendWebhookRequest_def initialState_def)
  note b = busy_flag_only_while_in_flight[OF c]
  from b have finished: "\<not> busy UploadToSpreadsheet
     (run ([SetIsUploadingSpreadsheet True, SetSpreadsheetError None, SetSpreadsheetResponse JNull,
       Fetch (js ''https://n8n/sheet'')
         [(js ''spreadsheet_url'', FormText (js ''https://docs/x'')),
          (js ''sheet_name'', FormText (js ''Notas'')),
          (js ''alumno'', FormText (js ''Ana'')),
          (js ''nota'', FormText []),
          (js ''resumen_por_criterios'', FormText []),
          (js ''fortalezas'', FormText []),
          (js ''recomendaciones'', FormText [])]] @
      [SetSpreadsheetError (Some \<lparr>message = js ''Failed to fetch'', details = None\<rparr>),
       SetIsUploadingSpreadsheet False])
       (initialState\<lparr>spreadsheetUrl := js ''https://docs/x'', spreadsheetSheetName := js ''Notas'',
          spreadsheetStudentName := js ''Ana''\<rparr>))"
    by blast
  from b have flight: "busy UploadToSpreadsheet
     (run [SetIsUploadingSpreadsheet True, SetSpreadsheetError None, SetSpreadsheetResponse JNull,
       Fetch (js ''https://n8n/sheet'')
         [(js ''spreadsheet_url'', FormText (js ''https://docs/x'')),
          (js ''sheet_name'', FormText (js ''Notas'')),
          (js ''alumno'', FormText (js ''Ana'')),
          (js ''nota'', FormText []),
          (js ''resumen_por_criterios'', FormText []),
          (js ''fortalezas'', FormText []),
          (js ''recomendaciones'', FormText [])]]
       (initialState\<lparr>spreadsheetUrl := js ''https://docs/x'', spreadsheetSheetName := js ''Notas'',
          spreadsheetStudentName := js ''Ana''\<rparr>))"
    by fastforce
  from c finished flight show ?thesis by blast
qed

end
